theory Spec2Isabelle
  imports Complex_Main
begin

section \<open>JavaScript values of the analysis engine\<close>

text \<open>
  The engine (\<^verbatim>\<open>utils/dataProcessing.ts\<close> and \<^verbatim>\<open>services/aiAnalysis.ts\<close>) works on
  rows of type \<^verbatim>\<open>any\<close> produced by the CSV and Excel parsers. A JavaScript number is
  modelled as an exact real extended with \<open>NaN\<close>, \<open>Infinity\<close> and \<open>-Infinity\<close>: the
  special values decide several branches of the code and are kept; rounding to binary64
  and the sign of zero are not modelled (a zero divisor is taken as \<open>+0\<close>).
\<close>

datatype jsnum = NaN | Fin real | PInf | NInf

fun isNaN :: "jsnum \<Rightarrow> bool" where
  "isNaN NaN = True"
| "isNaN _ = False"

fun jneg :: "jsnum \<Rightarrow> jsnum" where
  "jneg NaN = NaN"
| "jneg (Fin a) = Fin (- a)"
| "jneg PInf = NInf"
| "jneg NInf = PInf"

fun jadd :: "jsnum \<Rightarrow> jsnum \<Rightarrow> jsnum" where
  "jadd NaN _ = NaN"
| "jadd _ NaN = NaN"
| "jadd (Fin a) (Fin b) = Fin (a + b)"
| "jadd (Fin a) PInf = PInf"
| "jadd (Fin a) NInf = NInf"
| "jadd PInf (Fin b) = PInf"
| "jadd PInf PInf = PInf"
| "jadd PInf NInf = NaN"
| "jadd NInf (Fin b) = NInf"
| "jadd NInf PInf = NaN"
| "jadd NInf NInf = NInf"

definition jsub :: "jsnum \<Rightarrow> jsnum \<Rightarrow> jsnum" where
  "jsub a b = jadd a (jneg b)"

text \<open>The infinity whose sign is that of the real \<open>s\<close>, and \<open>NaN\<close> for \<open>s = 0\<close>
  (the product \<open>0 * Infinity\<close>).\<close>

definition signedInf :: "real \<Rightarrow> jsnum" where
  "signedInf s = (if s = 0 then NaN else if 0 < s then PInf else NInf)"

fun jmul :: "jsnum \<Rightarrow> jsnum \<Rightarrow> jsnum" where
  "jmul NaN _ = NaN"
| "jmul _ NaN = NaN"
| "jmul (Fin a) (Fin b) = Fin (a * b)"
| "jmul (Fin a) PInf = signedInf a"
| "jmul (Fin a) NInf = signedInf (- a)"
| "jmul PInf (Fin b) = signedInf b"
| "jmul PInf PInf = PInf"
| "jmul PInf NInf = NInf"
| "jmul NInf (Fin b) = signedInf (- b)"
| "jmul NInf PInf = NInf"
| "jmul NInf NInf = PInf"

fun jdiv :: "jsnum \<Rightarrow> jsnum \<Rightarrow> jsnum" where
  "jdiv NaN _ = NaN"
| "jdiv _ NaN = NaN"
| "jdiv (Fin a) (Fin b) = (if b = 0 then signedInf a else Fin (a / b))"
| "jdiv (Fin a) PInf = Fin 0"
| "jdiv (Fin a) NInf = Fin 0"
| "jdiv PInf (Fin b) = (if 0 \<le> b then PInf else NInf)"
| "jdiv NInf (Fin b) = (if 0 \<le> b then NInf else PInf)"
| "jdiv PInf PInf = NaN"
| "jdiv PInf NInf = NaN"
| "jdiv NInf PInf = NaN"
| "jdiv NInf NInf = NaN"

text \<open>\<^verbatim>\<open>a < b\<close> on numbers: false as soon as one side is \<open>NaN\<close>.\<close>

fun jlt :: "jsnum \<Rightarrow> jsnum \<Rightarrow> bool" where
  "jlt NaN _ = False"
| "jlt _ NaN = False"
| "jlt (Fin a) (Fin b) = (a < b)"
| "jlt (Fin a) PInf = True"
| "jlt (Fin a) NInf = False"
| "jlt PInf _ = False"
| "jlt NInf (Fin b) = True"
| "jlt NInf PInf = True"
| "jlt NInf NInf = False"

definition jgt :: "jsnum \<Rightarrow> jsnum \<Rightarrow> bool" where
  "jgt a b = jlt b a"

text \<open>\<^verbatim>\<open>a === b\<close> on numbers: \<open>NaN\<close> is not equal to itself.\<close>

definition jeq :: "jsnum \<Rightarrow> jsnum \<Rightarrow> bool" where
  "jeq a b = (\<not> isNaN a \<and> a = b)"

fun jabs :: "jsnum \<Rightarrow> jsnum" where
  "jabs NaN = NaN"
| "jabs (Fin a) = Fin \<bar>a\<bar>"
| "jabs PInf = PInf"
| "jabs NInf = PInf"

fun jsqrt :: "jsnum \<Rightarrow> jsnum" where
  "jsqrt NaN = NaN"
| "jsqrt (Fin a) = (if a < 0 then NaN else Fin (sqrt a))"
| "jsqrt PInf = PInf"
| "jsqrt NInf = NaN"

text \<open>\<^verbatim>\<open>Math.pow(x, 2)\<close>.\<close>

fun jpow2 :: "jsnum \<Rightarrow> jsnum" where
  "jpow2 NaN = NaN"
| "jpow2 (Fin a) = Fin (a * a)"
| "jpow2 PInf = PInf"
| "jpow2 NInf = PInf"

text \<open>
  \<^verbatim>\<open>x.toFixed(2)\<close> returns a decimal string; the engine only ever reads it back with
  \<^verbatim>\<open>Number\<close> or \<^verbatim>\<open>parseFloat\<close>, so the model keeps the number that the string denotes.
  ECMAScript picks the integer \<open>n\<close> with \<open>n / 100\<close> closest to \<open>\<bar>x\<bar>\<close>, the larger one on
  a tie, puts the sign back, and prints non-finite values and values from \<open>10^21\<close> on as
  \<^verbatim>\<open>String(x)\<close>. The model rounds the exact real; the engine rounds the binary64 value,
  which can give the neighbouring digit when the real lies on a tie or within rounding
  error of one (\<open>115/200\<close> is \<open>0.58\<close> here and \<^verbatim>\<open>"0.57"\<close> in the engine).
\<close>

fun toFixed2 :: "jsnum \<Rightarrow> jsnum" where
  "toFixed2 (Fin a) =
     (if 10 ^ 21 \<le> \<bar>a\<bar> then Fin a
      else Fin (sgn a * (of_int \<lfloor>\<bar>a\<bar> * 100 + 1 / 2\<rfloor> / 100)))"
| "toFixed2 x = x"

datatype jsval = JNull | JUndefined | JNum jsnum | JStr string | JBool bool

text \<open>
  A row is a plain object: its own properties in enumeration order (the order of
  \<^verbatim>\<open>Object.keys\<close> and \<^verbatim>\<open>Object.values\<close>), with distinct keys. Reading a key the row
  does not have gives \<^verbatim>\<open>undefined\<close>.
\<close>

type_synonym row = "(string \<times> jsval) list"

definition cell :: "row \<Rightarrow> string \<Rightarrow> jsval" where
  "cell r k = (case map_of r k of None \<Rightarrow> JUndefined | Some v \<Rightarrow> v)"

text \<open>
  The built-in conversions of strings are not part of the repository and are parameters
  of the model: \<^verbatim>\<open>Number(s)\<close> on a string, \<^verbatim>\<open>Date.parse(s)\<close> and \<^verbatim>\<open>String(n)\<close> on a
  number. Every theorem below holds for all three.
\<close>

record builtins =
  StringToNumber :: "string \<Rightarrow> jsnum"
  DateParse :: "string \<Rightarrow> jsnum"
  NumberToString :: "jsnum \<Rightarrow> string"

text \<open>\<^verbatim>\<open>Number(v)\<close>.\<close>

fun Number :: "builtins \<Rightarrow> jsval \<Rightarrow> jsnum" where
  "Number B JNull = Fin 0"
| "Number B JUndefined = NaN"
| "Number B (JNum n) = n"
| "Number B (JStr s) = StringToNumber B s"
| "Number B (JBool b) = (if b then Fin 1 else Fin 0)"

text \<open>\<^verbatim>\<open>String(v)\<close>.\<close>

fun String :: "builtins \<Rightarrow> jsval \<Rightarrow> string" where
  "String B JNull = ''null''"
| "String B JUndefined = ''undefined''"
| "String B (JNum n) = NumberToString B n"
| "String B (JStr s) = s"
| "String B (JBool b) = (if b then ''true'' else ''false'')"

text \<open>
  \<^verbatim>\<open>xs.sort(cmp)\<close> on a copy: a stable insertion sort that moves an element to the right
  of every element the comparator puts before it or level with it. A comparator result
  of \<open>NaN\<close> counts as \<open>0\<close>, as ECMAScript says. When the comparator is consistent the
  result is the one stable sorted arrangement that every conforming engine returns;
  otherwise ECMAScript leaves the order to the engine and the model fixes this one.
\<close>

fun jsInsert :: "('a \<Rightarrow> 'a \<Rightarrow> jsnum) \<Rightarrow> 'a \<Rightarrow> 'a list \<Rightarrow> 'a list" where
  "jsInsert cmp x [] = [x]"
| "jsInsert cmp x (y # ys) =
     (if jgt (cmp x y) (Fin 0) then y # jsInsert cmp x ys else x # y # ys)"

definition jsSort :: "('a \<Rightarrow> 'a \<Rightarrow> jsnum) \<Rightarrow> 'a list \<Rightarrow> 'a list" where
  "jsSort cmp xs = foldr (jsInsert cmp) xs []"

text \<open>\<^verbatim>\<open>xs[i]\<close> for an index that may be out of range: \<open>None\<close> is \<^verbatim>\<open>undefined\<close>.\<close>

definition elemAt :: "'a list \<Rightarrow> int \<Rightarrow> 'a option" where
  "elemAt xs i = (if 0 \<le> i \<and> i < int (length xs) then Some (xs ! nat i) else None)"

text \<open>An array element used in arithmetic: \<^verbatim>\<open>undefined\<close> becomes \<open>NaN\<close>.\<close>

fun numOf :: "jsnum option \<Rightarrow> jsnum" where
  "numOf None = NaN"
| "numOf (Some x) = x"

text \<open>\<^verbatim>\<open>Math.min(...xs)\<close> and \<^verbatim>\<open>Math.max(...xs)\<close>.\<close>

fun MathMin :: "jsnum list \<Rightarrow> jsnum" where
  "MathMin [] = PInf"
| "MathMin (x # xs) =
     (let m = MathMin xs in if isNaN x \<or> isNaN m then NaN else if jlt m x then m else x)"

fun MathMax :: "jsnum list \<Rightarrow> jsnum" where
  "MathMax [] = NInf"
| "MathMax (x # xs) =
     (let m = MathMax xs in if isNaN x \<or> isNaN m then NaN else if jlt x m then m else x)"

section \<open>Type inference and column statistics: \<^verbatim>\<open>detectColumnTypes\<close>\<close>

datatype coltype = Numeric | Categorical | Datetime | Boolean | Text

record DataColumn =
  name :: string
  type :: coltype
  uniqueValues :: nat
  missingValues :: nat
  missingPercentage :: jsnum
  min_c :: "jsnum option"
  max_c :: "jsnum option"
  mean :: "jsnum option"
  median :: "jsnum option"
  stdDev :: "jsnum option"
  quartiles :: "(jsnum option \<times> jsnum option \<times> jsnum option) option"

text \<open>The three tests of the \<^verbatim>\<open>if\<close> chain, each on one value.\<close>

fun isNumberLike :: "builtins \<Rightarrow> jsval \<Rightarrow> bool" where
  "isNumberLike B (JNum n) = True"
| "isNumberLike B (JStr s) = (\<not> isNaN (Number B (JStr s)))"
| "isNumberLike B _ = False"

fun isBooleanLike :: "jsval \<Rightarrow> bool" where
  "isBooleanLike (JBool b) = True"
| "isBooleanLike (JNum n) = (jeq n (Fin 0) \<or> jeq n (Fin 1))"
| "isBooleanLike (JStr s) =
     (s = ''0'' \<or> s = ''1'' \<or> s = ''true'' \<or> s = ''false'' \<or>
      s = ''yes'' \<or> s = ''no'' \<or> s = ''y'' \<or> s = ''n'')"
| "isBooleanLike _ = False"

definition isDateLike :: "builtins \<Rightarrow> jsval \<Rightarrow> bool" where
  "isDateLike B v = (\<not> isNaN (DateParse B (String B v)))"

text \<open>
  The values of a column in the sample with \<^verbatim>\<open>null\<close> and \<^verbatim>\<open>undefined\<close> filtered out.
\<close>

definition columnValues :: "row list \<Rightarrow> string \<Rightarrow> jsval list" where
  "columnValues sample colName =
     filter (\<lambda>val. val \<noteq> JNull \<and> val \<noteq> JUndefined) (map (\<lambda>r. cell r colName) sample)"

text \<open>
  The type chosen by the \<^verbatim>\<open>if\<close> chain. \<^verbatim>\<open>uniqueValues < sampleSize * 0.2\<close> is
  written over the integers.
\<close>

definition columnType :: "builtins \<Rightarrow> nat \<Rightarrow> jsval list \<Rightarrow> coltype" where
  "columnType B sampleSize values =
     (if list_all (isNumberLike B) values then Numeric
      else if list_all isBooleanLike values then Boolean
      else if list_all (isDateLike B) values then Datetime
      else if 5 * card (set values) < sampleSize \<and> 0 < length values then Categorical
      else Text)"

text \<open>
  The statistics block for a numeric column. \<^verbatim>\<open>Math.floor(n * 0.25)\<close>,
  \<^verbatim>\<open>Math.floor(n * 0.5)\<close> and \<^verbatim>\<open>Math.floor(n * 0.75)\<close> are exact in binary64 for array
  lengths and are written \<open>n div 4\<close>, \<open>n div 2\<close> and \<open>3 * n div 4\<close>.
\<close>

definition numSum :: "jsnum list \<Rightarrow> jsnum" where
  "numSum xs = foldl (\<lambda>sum val. jadd sum val) (Fin 0) xs"

definition sortNumbers :: "jsnum list \<Rightarrow> jsnum list" where
  "sortNumbers xs = jsSort (\<lambda>a b. jsub a b) xs"

definition addStatistics :: "jsnum list \<Rightarrow> DataColumn \<Rightarrow> DataColumn" where
  "addStatistics numericValues col =
     (let n = length numericValues;
          mean' = jdiv (numSum numericValues) (Fin (real n));
          sorted = sortNumbers numericValues;
          middle = int (length sorted) div 2;
          median' = (if length sorted mod 2 = 0
                     then jdiv (jadd (numOf (elemAt sorted (middle - 1))) (numOf (elemAt sorted middle))) (Fin 2)
                     else numOf (elemAt sorted middle));
          stdDev' = jsqrt (jdiv (foldl (\<lambda>sum val. jadd sum (jpow2 (jsub val mean'))) (Fin 0)
                                   numericValues) (Fin (real n)))
      in col\<lparr>min_c := Some (MathMin numericValues),
             max_c := Some (MathMax numericValues),
             mean := Some mean',
             median := Some median',
             stdDev := Some stdDev',
             quartiles := Some (elemAt sorted (int (length sorted) div 4),
                                elemAt sorted (int (length sorted) div 2),
                                elemAt sorted (3 * int (length sorted) div 4))\<rparr>)"

definition detectColumn :: "builtins \<Rightarrow> row list \<Rightarrow> nat \<Rightarrow> string \<Rightarrow> DataColumn" where
  "detectColumn B sample sampleSize colName =
     (let values = columnValues sample colName;
          uniqueValues' = card (set values);
          missingCount = length sample - length values;
          missingPercentage' =
            jmul (jdiv (Fin (real missingCount)) (Fin (real (length sample)))) (Fin 100);
          type' = columnType B sampleSize values;
          col = \<lparr>name = colName, type = type', uniqueValues = uniqueValues',
                 missingValues = missingCount, missingPercentage = missingPercentage',
                 min_c = None, max_c = None, mean = None, median = None, stdDev = None,
                 quartiles = None\<rparr>
      in if type' = Numeric then addStatistics (map (Number B) values) col else col)"

text \<open>
  The columns inferred from a given sample, in the order of the keys. The result object
  is keyed by column name; with distinct keys its values are this list.
\<close>

definition inferColumns :: "builtins \<Rightarrow> row list \<Rightarrow> string list \<Rightarrow> DataColumn list" where
  "inferColumns B sample columnNames =
     map (detectColumn B sample (length sample)) columnNames"

definition detectColumnTypes :: "builtins \<Rightarrow> row list \<Rightarrow> DataColumn list" where
  "detectColumnTypes B data =
     (if data = [] then []
      else let sampleSize = min 100 (length data);
               sample = take sampleSize data
           in inferColumns B sample (map fst (hd data)))"

section \<open>Data quality: \<^verbatim>\<open>analyzeDataQuality\<close>\<close>

record DataQuality =
  missingValues_q :: nat
  duplicateRows :: nat
  outliers :: nat

text \<open>The test of the missing-value loop on one cell.\<close>

definition isMissing :: "jsval \<Rightarrow> bool" where
  "isMissing value =
     (value = JNull \<or> value = JUndefined \<or> value = JStr [] \<or>
      value = JStr ''null'' \<or> value = JStr ''undefined'')"

text \<open>The two nested \<^verbatim>\<open>forEach\<close> loops that increment \<^verbatim>\<open>totalMissingValues\<close>.\<close>

definition countMissingRow :: "nat \<Rightarrow> row \<Rightarrow> nat" where
  "countMissingRow totalMissingValues r =
     foldl (\<lambda>t value. if isMissing value then t + 1 else t) totalMissingValues (map snd r)"

definition countMissing :: "row list \<Rightarrow> nat" where
  "countMissing data = foldl countMissingRow 0 data"

text \<open>
  \<^verbatim>\<open>JSON.stringify(row)\<close>, up to the injective printing of keys and scalars: the
  properties in their order, those holding \<^verbatim>\<open>undefined\<close> left out, and a number that is
  not finite printed as \<^verbatim>\<open>null\<close>. Two rows have the same string exactly when they have
  the same such form, so the \<^verbatim>\<open>Set\<close> of strings has the size of the set of forms.
\<close>

fun jsonScalar :: "jsval \<Rightarrow> jsval" where
  "jsonScalar (JNum (Fin a)) = JNum (Fin a)"
| "jsonScalar (JNum n) = JNull"
| "jsonScalar v = v"

definition JSONstringify :: "row \<Rightarrow> (string \<times> jsval) list" where
  "JSONstringify r =
     map (\<lambda>kv. (fst kv, jsonScalar (snd kv))) (filter (\<lambda>kv. snd kv \<noteq> JUndefined) r)"

definition countDuplicates :: "row list \<Rightarrow> nat" where
  "countDuplicates data =
     (let stringifiedRows = map JSONstringify data;
          uniqueRows = set stringifiedRows
      in length data - card uniqueRows)"

text \<open>
  The outlier loop: for every numeric column that has quartiles, every row of \<open>data\<close>
  whose coerced cell is not \<open>NaN\<close> and lies outside the fences increments the counter.
\<close>

definition fences :: "jsnum \<Rightarrow> jsnum \<Rightarrow> jsnum \<times> jsnum" where
  "fences q1 q3 =
     (let iqr = jsub q3 q1;
          lowerBound = jsub q1 (jmul (Fin 1.5) iqr);
          upperBound = jadd q3 (jmul (Fin 1.5) iqr)
      in (lowerBound, upperBound))"

definition qualityOutlier :: "builtins \<Rightarrow> DataColumn \<Rightarrow> jsnum \<times> jsnum \<Rightarrow> row \<Rightarrow> bool" where
  "qualityOutlier B column bounds r =
     (let value = Number B (cell r (name column))
      in \<not> isNaN value \<and> (jlt value (fst bounds) \<or> jgt value (snd bounds)))"

definition countColumnOutliers :: "builtins \<Rightarrow> row list \<Rightarrow> nat \<Rightarrow> DataColumn \<Rightarrow> nat" where
  "countColumnOutliers B data outlierCount column =
     (case quartiles column of
        None \<Rightarrow> outlierCount
      | Some (qa, qb, qc) \<Rightarrow>
          if type column = Numeric
          then foldl (\<lambda>c r. if qualityOutlier B column (fences (numOf qa) (numOf qc)) r
                             then c + 1 else c) outlierCount data
          else outlierCount)"

definition countOutliers :: "builtins \<Rightarrow> DataColumn list \<Rightarrow> row list \<Rightarrow> nat" where
  "countOutliers B columns data = foldl (countColumnOutliers B data) 0 columns"

definition analyzeDataQuality :: "builtins \<Rightarrow> row list \<Rightarrow> DataQuality" where
  "analyzeDataQuality B data =
     (if data = [] then \<lparr>missingValues_q = 0, duplicateRows = 0, outliers = 0\<rparr>
      else \<lparr>missingValues_q = countMissing data,
            duplicateRows = countDuplicates data,
            outliers = countOutliers B (detectColumnTypes B data) data\<rparr>)"

section \<open>Outliers: \<^verbatim>\<open>identifyOutliers\<close>\<close>

record OutlierInfo =
  count :: nat
  percentage :: jsnum
  boundaries :: "jsnum \<times> jsnum"
  examples :: "row list"

text \<open>The fences of a column: quartiles of all its coerced non-missing values.\<close>

definition columnNumbers :: "builtins \<Rightarrow> row list \<Rightarrow> string \<Rightarrow> jsnum list" where
  "columnNumbers B data colName = map (Number B) (columnValues data colName)"

definition columnFences :: "jsnum list \<Rightarrow> jsnum \<times> jsnum" where
  "columnFences values =
     (let sorted = sortNumbers values;
          q1Index = int (length sorted) div 4;
          q3Index = 3 * int (length sorted) div 4;
          q1 = numOf (elemAt sorted q1Index);
          q3 = numOf (elemAt sorted q3Index)
      in fences q1 q3)"

text \<open>The test of the \<^verbatim>\<open>data.filter\<close> that finds the outliers.\<close>

definition isOutlier :: "builtins \<Rightarrow> string \<Rightarrow> jsnum \<times> jsnum \<Rightarrow> row \<Rightarrow> bool" where
  "isOutlier B colName bounds r =
     (let val = Number B (cell r colName)
      in jlt val (fst bounds) \<or> jgt val (snd bounds))"

text \<open>The body of the \<^verbatim>\<open>forEach\<close>: \<open>None\<close> when the column gets no entry.\<close>

definition outlierEntry :: "builtins \<Rightarrow> row list \<Rightarrow> string \<Rightarrow> OutlierInfo option" where
  "outlierEntry B data colName =
     (let values = columnNumbers B data colName
      in if length values < 5 then None
         else let bounds = columnFences values;
                  found = filter (isOutlier B colName bounds) data
              in if 0 < length found
                 then Some \<lparr>count = length found,
                            percentage = toFixed2 (jmul (jdiv (Fin (real (length found)))
                                                    (Fin (real (length data)))) (Fin 100)),
                            boundaries = bounds,
                            examples = take 5 found\<rparr>
                 else None)"

definition identifyOutliers ::
  "builtins \<Rightarrow> row list \<Rightarrow> DataColumn list \<Rightarrow> (string \<rightharpoonup> OutlierInfo)" where
  "identifyOutliers B data columns =
     foldl (\<lambda>outlierInfo column.
              case outlierEntry B data (name column) of
                None \<Rightarrow> outlierInfo
              | Some e \<Rightarrow> outlierInfo(name column \<mapsto> e))
           Map.empty (filter (\<lambda>col. type col = Numeric) columns)"

section \<open>Correlations: \<^verbatim>\<open>findCorrelations\<close>\<close>

datatype strength_t = Moderate | Strong

datatype direction_t = Positive | Negative

record Correlation =
  columns :: "string list"
  correlation :: jsnum
  strength :: strength_t
  direction :: direction_t

definition pairsOf :: "builtins \<Rightarrow> row list \<Rightarrow> string \<Rightarrow> string \<Rightarrow> (jsnum \<times> jsnum) list" where
  "pairsOf B data col1 col2 =
     map (\<lambda>r. (Number B (cell r col1), Number B (cell r col2)))
       (filter (\<lambda>r. cell r col1 \<noteq> JNull \<and> cell r col1 \<noteq> JUndefined \<and>
                     cell r col2 \<noteq> JNull \<and> cell r col2 \<noteq> JUndefined) data)"

definition numerator :: "(jsnum \<times> jsnum) list \<Rightarrow> jsnum" where
  "numerator pairs =
     (let n = Fin (real (length pairs));
          sumX = foldl (\<lambda>sum pair. jadd sum (fst pair)) (Fin 0) pairs;
          sumY = foldl (\<lambda>sum pair. jadd sum (snd pair)) (Fin 0) pairs;
          sumXY = foldl (\<lambda>sum pair. jadd sum (jmul (fst pair) (snd pair))) (Fin 0) pairs
      in jsub (jmul n sumXY) (jmul sumX sumY))"

text \<open>
  In exact arithmetic the denominator is 0 for every pair with a constant column; in
  binary64 it can be rounding noise instead (constant columns 0.1 and 0.2), and then the
  engine's \<^verbatim>\<open>denominator === 0\<close> guard does not fire where the model's does.
\<close>

definition denominator :: "(jsnum \<times> jsnum) list \<Rightarrow> jsnum" where
  "denominator pairs =
     (let n = Fin (real (length pairs));
          sumX = foldl (\<lambda>sum pair. jadd sum (fst pair)) (Fin 0) pairs;
          sumY = foldl (\<lambda>sum pair. jadd sum (snd pair)) (Fin 0) pairs;
          sumX2 = foldl (\<lambda>sum pair. jadd sum (jmul (fst pair) (fst pair))) (Fin 0) pairs;
          sumY2 = foldl (\<lambda>sum pair. jadd sum (jmul (snd pair) (snd pair))) (Fin 0) pairs
      in jsqrt (jmul (jsub (jmul n sumX2) (jmul sumX sumX))
                     (jsub (jmul n sumY2) (jmul sumY sumY))))"

text \<open>
  The body of the inner loop for one pair of columns: \<open>None\<close> for each \<^verbatim>\<open>continue\<close> and
  for a coefficient that is not pushed.
\<close>

definition correlatePair :: "builtins \<Rightarrow> row list \<Rightarrow> string \<Rightarrow> string \<Rightarrow> Correlation option" where
  "correlatePair B data col1 col2 =
     (let pairs = pairsOf B data col1 col2
      in if length pairs < 5 then None
         else if jeq (denominator pairs) (Fin 0) then None
         else let r = jdiv (numerator pairs) (denominator pairs)
              in if jgt (jabs r) (Fin 0.5)
                 then Some \<lparr>columns = [col1, col2],
                            correlation = toFixed2 r,
                            strength = (if jgt (jabs r) (Fin 0.8) then Strong else Moderate),
                            direction = (if jgt r (Fin 0) then Positive else Negative)\<rparr>
                 else None)"

text \<open>The inner loop over \<open>j\<close> and the outer loop over \<open>i\<close>, pushing to \<open>correlations\<close>.\<close>

fun innerLoop ::
  "builtins \<Rightarrow> row list \<Rightarrow> string \<Rightarrow> DataColumn list \<Rightarrow> Correlation list \<Rightarrow> Correlation list" where
  "innerLoop B data col1 [] correlations = correlations"
| "innerLoop B data col1 (c # cs) correlations =
     innerLoop B data col1 cs
       (case correlatePair B data col1 (name c) of
          None \<Rightarrow> correlations
        | Some e \<Rightarrow> correlations @ [e])"

fun outerLoop ::
  "builtins \<Rightarrow> row list \<Rightarrow> DataColumn list \<Rightarrow> Correlation list \<Rightarrow> Correlation list" where
  "outerLoop B data [] correlations = correlations"
| "outerLoop B data (c # cs) correlations =
     outerLoop B data cs (innerLoop B data (name c) cs correlations)"

definition byStrength :: "Correlation \<Rightarrow> Correlation \<Rightarrow> jsnum" where
  "byStrength a b = jsub (jabs (correlation b)) (jabs (correlation a))"

definition findCorrelations :: "builtins \<Rightarrow> row list \<Rightarrow> DataColumn list \<Rightarrow> Correlation list" where
  "findCorrelations B data columns' =
     (if data = [] then []
      else let numericColumns = filter (\<lambda>col. type col = Numeric) columns'
           in jsSort byStrength (outerLoop B data numericColumns []))"

section \<open>Time trends: \<^verbatim>\<open>detectTimeTrends\<close>\<close>

datatype trend_t = Increasing | Decreasing | Stable

record Trend =
  trendDirection :: trend_t
  percentChange :: jsnum
  seasonality :: bool
  movingAverage :: "jsnum list"

text \<open>
  \<^verbatim>\<open>new Date(v).getTime()\<close>: a string is parsed, anything else is coerced to a number;
  the time value is then clipped: \<open>NaN\<close> unless finite and at most \<open>8.64 * 10^15\<close> in
  magnitude, and truncated towards zero.
\<close>

fun TimeClip :: "jsnum \<Rightarrow> jsnum" where
  "TimeClip (Fin t) =
     (if 8640000000000000 < \<bar>t\<bar> then NaN else Fin (sgn t * of_int \<lfloor>\<bar>t\<bar>\<rfloor>))"
| "TimeClip _ = NaN"

fun getTime :: "builtins \<Rightarrow> jsval \<Rightarrow> jsnum" where
  "getTime B (JStr s) = TimeClip (DateParse B s)"
| "getTime B v = TimeClip (Number B v)"

definition byDate :: "builtins \<Rightarrow> string \<Rightarrow> row \<Rightarrow> row \<Rightarrow> jsnum" where
  "byDate B dateColumn a b =
     jsub (getTime B (cell a dateColumn)) (getTime B (cell b dateColumn))"

definition average :: "jsnum list \<Rightarrow> jsnum" where
  "average xs = jdiv (numSum xs) (Fin (real (length xs)))"

definition signChange :: "jsnum list \<Rightarrow> nat \<Rightarrow> bool" where
  "signChange diffs' i =
     ((jgt (diffs' ! i) (Fin 0) \<and> jlt (diffs' ! (i - 1)) (Fin 0)) \<or>
      (jlt (diffs' ! i) (Fin 0) \<and> jgt (diffs' ! (i - 1)) (Fin 0)))"

text \<open>
  The detector; \<open>None\<close> is the \<^verbatim>\<open>null\<close> it returns. No operation inside the \<^verbatim>\<open>try\<close>
  block throws on an array of rows, so the \<^verbatim>\<open>catch\<close> branch has no counterpart.
  \<^verbatim>\<open>signChanges > diffs.length * 0.4\<close> is written over the integers.
\<close>

definition detectTimeTrends :: "builtins \<Rightarrow> row list \<Rightarrow> string \<Rightarrow> string \<Rightarrow> Trend option" where
  "detectTimeTrends B data dateColumn valueColumn =
     (if length data < 5 then None
      else let sortedData = jsSort (byDate B dateColumn) data;
               values = map (\<lambda>item. Number B (cell item valueColumn)) sortedData;
               movingAvg = map (\<lambda>idx. jdiv (jadd (jadd (values ! (idx - 1)) (values ! idx))
                                                 (values ! (idx + 1))) (Fin 3))
                               [1 ..< length values - 1];
               firstQuarter = take (length values div 4) values;
               lastQuarter = drop (length values * 3 div 4) values;
               firstAvg = average firstQuarter;
               lastAvg = average lastQuarter;
               pc = jmul (jdiv (jsub lastAvg firstAvg) firstAvg) (Fin 100);
               diffs' = map (\<lambda>i. jsub (values ! i) (values ! (i - 1))) [1 ..< length values];
               signChanges = length (filter (signChange diffs') [1 ..< length diffs'])
           in Some \<lparr>trendDirection = (if jgt pc (Fin 10) then Increasing
                                       else if jlt pc (Fin (- 10)) then Decreasing
                                       else Stable),
                     percentChange = toFixed2 pc,
                     seasonality = (2 * length diffs' < 5 * signChanges),
                     movingAverage = movingAvg\<rparr>)"

section \<open>The coefficient of a pair of columns\<close>

text \<open>
  The coefficient that the loop body computes for a pair of columns, before it is
  rounded for the \<^verbatim>\<open>correlation\<close> field, and the coefficient behind a returned entry.
\<close>

definition pearson :: "builtins \<Rightarrow> row list \<Rightarrow> string \<Rightarrow> string \<Rightarrow> jsnum" where
  "pearson B data col1 col2 =
     (let pairs = pairsOf B data col1 col2 in jdiv (numerator pairs) (denominator pairs))"

definition coefficientOf :: "builtins \<Rightarrow> row list \<Rightarrow> Correlation \<Rightarrow> jsnum" where
  "coefficientOf B data e = pearson B data (columns e ! 0) (columns e ! 1)"

text \<open>
  The pairs of positions \<open>i < j\<close> of a list, in the order in which the two nested loops
  of the correlation finder visit them.
\<close>

fun columnPairs :: "'a list \<Rightarrow> ('a \<times> 'a) list" where
  "columnPairs [] = []"
| "columnPairs (c # cs) = map (Pair c) cs @ columnPairs cs"

section \<open>The specification's reading of missing values, the outlier total and the ranking\<close>

text \<open>
  The values of a column that the specification calls non-missing: those that are none
  of \<^verbatim>\<open>null\<close>, \<^verbatim>\<open>undefined\<close>, the empty string, \<^verbatim>\<open>"null"\<close> and \<^verbatim>\<open>"undefined"\<close>.
\<close>

definition nonMissingValues :: "row list \<Rightarrow> string \<Rightarrow> jsval list" where
  "nonMissingValues data colName =
     filter (\<lambda>v. v \<noteq> JNull \<and> v \<noteq> JUndefined \<and> v \<noteq> JStr [] \<and>
                 v \<noteq> JStr ''null'' \<and> v \<noteq> JStr ''undefined'')
       (map (\<lambda>r. cell r colName) data)"



text \<open>
  The outlier total as the specification words it: the same counting loop, with column
  types and quartiles recomputed over the full record set instead of the sample.
\<close>

definition fullSetOutliers :: "builtins \<Rightarrow> row list \<Rightarrow> nat" where
  "fullSetOutliers B data = countOutliers B (inferColumns B data (map fst (hd data))) data"

text \<open>
  The ranking as the specification words it: descending by the absolute value of the
  coefficient of each returned pair.
\<close>

definition descendingByCoefficient :: "builtins \<Rightarrow> row list \<Rightarrow> Correlation list \<Rightarrow> bool" where
  "descendingByCoefficient B data cs =
     sorted_wrt (\<lambda>a b. \<not> jlt (jabs (coefficientOf B data a)) (jabs (coefficientOf B data b))) cs"

section \<open>Example inputs\<close>

text \<open>
  Datasets of finite numbers for the worked examples: one row per inner list, one cell
  per key. No cell of such a dataset is a string, so the string conversions are never
  consulted on it; \<open>exampleBuiltins\<close> is an arbitrary instance of them.
\<close>

definition table :: "string list \<Rightarrow> real list list \<Rightarrow> row list" where
  "table keys rows = map (\<lambda>r. zip keys (map (\<lambda>x. JNum (Fin x)) r)) rows"

definition exampleBuiltins :: builtins where
  "exampleBuiltins =
     \<lparr>StringToNumber = (\<lambda>s. NaN), DateParse = (\<lambda>s. NaN), NumberToString = (\<lambda>n. [])\<rparr>"

text \<open>
  An instance that converts the empty string as ECMAScript does (\<^verbatim>\<open>Number("")\<close> is 0),
  for the examples with blank cells; they hold no other string.
\<close>

definition emptyStringBuiltins :: builtins where
  "emptyStringBuiltins =
     \<lparr>StringToNumber = (\<lambda>s. if s = [] then Fin 0 else NaN), DateParse = (\<lambda>s. NaN),
      NumberToString = (\<lambda>n. [])\<rparr>"

section \<open>Numbers, sorting and indexing\<close>

lemma foldl_jadd_Fin: "foldl (\<lambda>sum val. jadd sum val) (Fin a) (map Fin xs) = Fin (a + sum_list xs)"
  by (induction xs arbitrary: a) (simp_all add: add.assoc)

lemma numSum_Fin: "numSum (map Fin xs) = Fin (sum_list xs)"
  by (simp add: numSum_def foldl_jadd_Fin)

lemma jsInsert_Fin: "jsInsert (\<lambda>a b. jsub a b) (Fin x) (map Fin ys) = map Fin (insort x ys)"
  by (induction ys) (auto simp: jsub_def jgt_def)

lemma sortNumbers_Fin: "sortNumbers (map Fin xs) = map Fin (sort xs)"
  by (induction xs) (simp_all add: sortNumbers_def jsSort_def jsInsert_Fin)

lemma MathMin_Fin: "xs \<noteq> [] \<Longrightarrow> MathMin (map Fin xs) = Fin (Min (set xs))"
proof (induction xs)
  case Nil
  then show ?case by simp
next
  case (Cons x xs)
  show ?case
  proof (cases "xs = []")
    case True
    then show ?thesis by simp
  next
    case False
    with Cons have "MathMin (map Fin xs) = Fin (Min (set xs))" by simp
    moreover have "Min (set (x # xs)) = min x (Min (set xs))" using False by simp
    ultimately show ?thesis by (simp add: Let_def min_def del: Min_insert set_simps)
  qed
qed

lemma MathMax_Fin: "xs \<noteq> [] \<Longrightarrow> MathMax (map Fin xs) = Fin (Max (set xs))"
proof (induction xs)
  case Nil
  then show ?case by simp
next
  case (Cons x xs)
  show ?case
  proof (cases "xs = []")
    case True
    then show ?thesis by simp
  next
    case False
    with Cons have "MathMax (map Fin xs) = Fin (Max (set xs))" by simp
    moreover have "Max (set (x # xs)) = max x (Max (set xs))" using False by simp
    ultimately show ?thesis by (simp add: Let_def max_def del: Max_insert set_simps)
  qed
qed

lemma foldl_sq_Fin:
  "foldl (\<lambda>sum val. jadd sum (jpow2 (jsub val (Fin m)))) (Fin a) (map Fin xs)
     = Fin (a + (\<Sum>x\<leftarrow>xs. (x - m)\<^sup>2))"
  by (induction xs arbitrary: a) (simp_all add: jsub_def power2_eq_square add.assoc)

lemma elemAt_map: "elemAt (map f xs) i = map_option f (elemAt xs i)"
  by (simp add: elemAt_def nat_less_iff)

lemma floor_quarter: "\<lfloor>real n * 0.25\<rfloor> = int n div 4"
proof -
  have "\<lfloor>real n / real 4\<rfloor> = int (n div 4)" by (rule floor_divide_of_nat_eq)
  then show ?thesis by (simp add: zdiv_int)
qed

lemma floor_half: "\<lfloor>real n * 0.5\<rfloor> = int n div 2"
proof -
  have "\<lfloor>real n / real 2\<rfloor> = int (n div 2)" by (rule floor_divide_of_nat_eq)
  then show ?thesis by (simp add: zdiv_int)
qed

lemma floor_three_quarters: "\<lfloor>real n * 0.75\<rfloor> = 3 * int n div 4"
proof -
  have a: "real n * 0.75 = real (3 * n) / real 4" by simp
  have "\<lfloor>real n * 0.75\<rfloor> = \<lfloor>real (3 * n) / real 4\<rfloor>" by (simp only: a)
  also have "\<dots> = int (3 * n div 4)" by (rule floor_divide_of_nat_eq)
  also have "\<dots> = 3 * int n div 4" by (simp add: zdiv_int)
  finally show ?thesis .
qed

section \<open>The statistics block on finite values\<close>

lemma elemAt_Fin_sort:
  "i < length xs \<Longrightarrow> numOf (elemAt (map Fin (sort xs)) (int i)) = Fin (sort xs ! i)"
  by (simp add: elemAt_def)

lemma elemAt_Fin_sort':
  "i < length xs \<Longrightarrow> elemAt (map Fin (sort xs)) (int i) = Some (Fin (sort xs ! i))"
  by (simp add: elemAt_def)

lemma addStatistics_min:
  "xs \<noteq> [] \<Longrightarrow> min_c (addStatistics (map Fin xs) col) = Some (Fin (Min (set xs)))"
  by (simp add: addStatistics_def Let_def MathMin_Fin)

lemma addStatistics_max:
  "xs \<noteq> [] \<Longrightarrow> max_c (addStatistics (map Fin xs) col) = Some (Fin (Max (set xs)))"
  by (simp add: addStatistics_def Let_def MathMax_Fin)

lemma addStatistics_mean:
  "xs \<noteq> [] \<Longrightarrow> mean (addStatistics (map Fin xs) col) = Some (Fin (sum_list xs / real (length xs)))"
  by (simp add: addStatistics_def Let_def numSum_Fin)

lemma addStatistics_median:
  assumes "xs \<noteq> []"
  shows "median (addStatistics (map Fin xs) col)
     = Some (Fin (if even (length xs)
                  then (sort xs ! (length xs div 2 - 1) + sort xs ! (length xs div 2)) / 2
                  else sort xs ! (length xs div 2)))"
proof -
  let ?n = "length xs"
  have n: "0 < ?n" using assms by simp
  have mid: "int ?n div 2 = int (?n div 2)" by (simp add: zdiv_int)
  have lt: "?n div 2 < ?n" using n by simp
  show ?thesis
  proof (cases "even ?n")
    case True
    then have ge: "1 \<le> ?n div 2" using n by presburger
    then have pred: "int (?n div 2) - 1 = int (?n div 2 - 1)" by (simp add: of_nat_diff)
    have lt': "?n div 2 - 1 < ?n" using lt by simp
    have "median (addStatistics (map Fin xs) col)
        = Some (jdiv (jadd (numOf (elemAt (map Fin (sort xs)) (int (?n div 2 - 1))))
                           (numOf (elemAt (map Fin (sort xs)) (int (?n div 2))))) (Fin 2))"
      using True by (simp add: addStatistics_def Let_def sortNumbers_Fin pred mid even_iff_mod_2_eq_zero del: elemAt_map)
    then show ?thesis using True by (simp only: elemAt_Fin_sort [OF lt] elemAt_Fin_sort [OF lt']) simp
  next
    case False
    have "median (addStatistics (map Fin xs) col)
        = Some (numOf (elemAt (map Fin (sort xs)) (int (?n div 2))))"
      using False by (simp add: addStatistics_def Let_def sortNumbers_Fin mid even_iff_mod_2_eq_zero)
    then show ?thesis using False by (simp only: elemAt_Fin_sort [OF lt]) simp
  qed
qed

lemma addStatistics_stdDev:
  assumes "xs \<noteq> []"
  shows "stdDev (addStatistics (map Fin xs) col)
     = Some (Fin (sqrt ((\<Sum>x\<leftarrow>xs. (x - sum_list xs / real (length xs))\<^sup>2) / real (length xs))))"
proof -
  have "0 \<le> (\<Sum>x\<leftarrow>xs. (x - sum_list xs / real (length xs))\<^sup>2)"
    by (rule sum_list_nonneg) auto
  then have "0 \<le> (\<Sum>x\<leftarrow>xs. (x - sum_list xs / real (length xs))\<^sup>2) / real (length xs)"
    by simp
  then show ?thesis using assms
    by (simp add: addStatistics_def Let_def numSum_Fin foldl_sq_Fin not_less [symmetric])
qed

lemma addStatistics_quartiles:
  assumes "xs \<noteq> []"
  shows "quartiles (addStatistics (map Fin xs) col)
     = Some (Some (Fin (sort xs ! nat \<lfloor>real (length xs) * 0.25\<rfloor>)),
             Some (Fin (sort xs ! nat \<lfloor>real (length xs) * 0.5\<rfloor>)),
             Some (Fin (sort xs ! nat \<lfloor>real (length xs) * 0.75\<rfloor>)))"
proof -
  let ?n = "length xs"
  have n: "0 < ?n" using assms by simp
  have a: "int ?n div 4 = int (?n div 4)" "int ?n div 2 = int (?n div 2)"
          "3 * int ?n div 4 = int (3 * ?n div 4)"
    by (simp_all add: zdiv_int)
  have lt: "?n div 4 < ?n" "?n div 2 < ?n" "3 * ?n div 4 < ?n" using n by arith+
  have "quartiles (addStatistics (map Fin xs) col)
     = Some (elemAt (map Fin (sort xs)) (int (?n div 4)),
             elemAt (map Fin (sort xs)) (int (?n div 2)),
             elemAt (map Fin (sort xs)) (int (3 * ?n div 4)))"
    by (simp add: addStatistics_def Let_def sortNumbers_Fin a del: of_nat_mult)
  also have "\<dots> = Some (Some (Fin (sort xs ! (?n div 4))), Some (Fin (sort xs ! (?n div 2))),
                         Some (Fin (sort xs ! (3 * ?n div 4))))"
    by (simp only: elemAt_Fin_sort' [OF lt(1)] elemAt_Fin_sort' [OF lt(2)] elemAt_Fin_sort' [OF lt(3)])
  finally have q: "quartiles (addStatistics (map Fin xs) col)
     = Some (Some (Fin (sort xs ! (?n div 4))), Some (Fin (sort xs ! (?n div 2))),
             Some (Fin (sort xs ! (3 * ?n div 4))))" .
  have f: "nat \<lfloor>real ?n * 0.25\<rfloor> = ?n div 4" "nat \<lfloor>real ?n * 0.5\<rfloor> = ?n div 2"
          "nat \<lfloor>real ?n * 0.75\<rfloor> = 3 * ?n div 4"
    by (simp_all only: floor_quarter floor_half floor_three_quarters a nat_int)
  show ?thesis by (simp only: q f)
qed

section \<open>Datasets with fewer than five rows\<close>

lemma length_columnValues_le: "length (columnValues data colName) \<le> length data"
  by (simp add: columnValues_def)

lemma outlierEntry_few: "length data < 5 \<Longrightarrow> outlierEntry B data colName = None"
  using length_columnValues_le [of data colName]
  by (simp add: outlierEntry_def columnNumbers_def)

lemma identifyOutliers_fold:
  "foldl (\<lambda>outlierInfo column.
              case outlierEntry B data (name column) of
                None \<Rightarrow> outlierInfo
              | Some e \<Rightarrow> outlierInfo(name column \<mapsto> e)) m cs k
   = (if (\<exists>c \<in> set cs. name c = k) \<and> outlierEntry B data k \<noteq> None
      then outlierEntry B data k else m k)"
  by (induction cs arbitrary: m) (auto split: option.splits)

lemma identifyOutliers_lookup:
  "identifyOutliers B data cols k
   = (if \<exists>c \<in> set cols. name c = k \<and> type c = Numeric then outlierEntry B data k else None)"
  by (auto simp: identifyOutliers_def identifyOutliers_fold)

lemma length_pairsOf_le: "length (pairsOf B data col1 col2) \<le> length data"
  by (simp add: pairsOf_def)

lemma correlatePair_few: "length data < 5 \<Longrightarrow> correlatePair B data col1 col2 = None"
  using length_pairsOf_le [of B data col1 col2]
  by (simp add: correlatePair_def)

lemma innerLoop_few: "length data < 5 \<Longrightarrow> innerLoop B data col1 cs acc = acc"
  by (induction cs arbitrary: acc) (simp_all add: correlatePair_few)

lemma outerLoop_few: "length data < 5 \<Longrightarrow> outerLoop B data cs acc = acc"
  by (induction cs arbitrary: acc) (simp_all add: innerLoop_few)

text \<open>
  Claim C8. On a dataset with fewer than five rows the outlier detector returns the empty
  mapping, the correlation finder returns the empty list and the time-trend detector
  returns \<^verbatim>\<open>null\<close> for every pair of columns. The three functions are total on
  arrays of rows: none of their operations throws.
\<close>

theorem fewer_than_five_rows:
  assumes "length data < 5"
  shows "identifyOutliers B data cols = Map.empty
       \<and> findCorrelations B data cols = []
       \<and> detectTimeTrends B data dateColumn valueColumn = None"
proof -
  have "identifyOutliers B data cols = Map.empty"
    using assms by (intro ext) (simp add: identifyOutliers_lookup outlierEntry_few)
  moreover have "findCorrelations B data cols = []"
    using assms by (simp add: findCorrelations_def outerLoop_few jsSort_def)
  moreover have "detectTimeTrends B data dateColumn valueColumn = None"
    using assms by (simp add: detectTimeTrends_def)
  ultimately show ?thesis by simp
qed

theorem fewer_than_five_rows_witness:
  "length (table [''d'', ''v''] [[1, 10], [2, 20], [3, 30], [4, 400]]) < 5
   \<and> identifyOutliers exampleBuiltins (table [''d'', ''v''] [[1, 10], [2, 20], [3, 30], [4, 400]])
        (detectColumnTypes exampleBuiltins
          (table [''d'', ''v''] [[1, 10], [2, 20], [3, 30], [4, 400]])) = Map.empty
   \<and> findCorrelations exampleBuiltins (table [''d'', ''v''] [[1, 10], [2, 20], [3, 30], [4, 400]])
        (detectColumnTypes exampleBuiltins
          (table [''d'', ''v''] [[1, 10], [2, 20], [3, 30], [4, 400]])) = []
   \<and> detectTimeTrends exampleBuiltins
        (table [''d'', ''v''] [[1, 10], [2, 20], [3, 30], [4, 400]]) ''d'' ''v'' = None"
  using fewer_than_five_rows
    [of "table [''d'', ''v''] [[1, 10], [2, 20], [3, 30], [4, 400]]" exampleBuiltins
        "detectColumnTypes exampleBuiltins
          (table [''d'', ''v''] [[1, 10], [2, 20], [3, 30], [4, 400]])" "''d''" "''v''"]
  by (simp add: table_def)

section \<open>Type inference and statistics of a column\<close>

lemma detectColumn_type:
  "type (detectColumn B sample n colName) = columnType B n (columnValues sample colName)"
  by (simp add: detectColumn_def addStatistics_def Let_def)

lemma detectColumn_name: "name (detectColumn B sample n colName) = colName"
  by (simp add: detectColumn_def addStatistics_def Let_def)

text \<open>
  Claim C5. A column whose sampled values are all \<^verbatim>\<open>null\<close> or \<^verbatim>\<open>undefined\<close> has an
  empty list of values; \<^verbatim>\<open>every\<close> holds of the empty list, so the first branch of
  the chain fires and the column is typed numeric, not text. Its missing percentage
  is 100, and the statistics block runs on no value: the minimum is \<open>Infinity\<close>, the
  maximum \<open>-Infinity\<close> and the mean \<open>NaN\<close>.
\<close>

theorem all_missing_column_is_numeric:
  "map (\<lambda>c. (name c, type c, missingValues c, missingPercentage c, min_c c, max_c c, mean c))
       (detectColumnTypes B [[(''a'', JNull)], [(''a'', JUndefined)], [(''a'', JNull)]])
   = [(''a'', Numeric, 3, Fin 100, Some PInf, Some NInf, Some NaN)]"
  by (simp add: detectColumnTypes_def inferColumns_def detectColumn_def addStatistics_def
       columnValues_def columnType_def cell_def numSum_def signedInf_def Let_def)

lemma detectColumn_numeric:
  assumes "type (detectColumn B sample n colName) = Numeric"
  shows "\<exists>col. detectColumn B sample n colName
            = addStatistics (map (Number B) (columnValues sample colName)) col"
  using assms by (auto simp: detectColumn_def Let_def)

lemma detectColumnTypes_member:
  assumes "c \<in> set (detectColumnTypes B data)"
  shows "data \<noteq> [] \<and> c = detectColumn B (take 100 data) (min 100 (length data)) (name c)"
proof -
  from assms have ne: "data \<noteq> []" by (auto simp: detectColumnTypes_def)
  have tk: "take (min 100 (length data)) data = take 100 data"
    by (simp add: min_def)
  from assms ne obtain k where "c = detectColumn B (take 100 data) (min 100 (length data)) k"
    by (auto simp: detectColumnTypes_def inferColumns_def Let_def tk)
  then show ?thesis using ne by (simp add: detectColumn_name)
qed

lemma statistics_of_numeric_column:
  assumes "c \<in> set (detectColumnTypes B data)" and "type c = Numeric"
    and "map (Number B) (columnValues (take 100 data) (name c)) = map Fin xs" and "xs \<noteq> []"
  shows "min_c c = Some (Fin (Min (set xs)))
       \<and> max_c c = Some (Fin (Max (set xs)))
       \<and> mean c = Some (Fin (sum_list xs / real (length xs)))
       \<and> median c = Some (Fin (if even (length xs)
                  then (sort xs ! (length xs div 2 - 1) + sort xs ! (length xs div 2)) / 2
                  else sort xs ! (length xs div 2)))
       \<and> stdDev c = Some (Fin (sqrt ((\<Sum>x\<leftarrow>xs. (x - sum_list xs / real (length xs))\<^sup>2)
                                     / real (length xs))))
       \<and> quartiles c = Some (Some (Fin (sort xs ! nat \<lfloor>real (length xs) * 0.25\<rfloor>)),
                              Some (Fin (sort xs ! nat \<lfloor>real (length xs) * 0.5\<rfloor>)),
                              Some (Fin (sort xs ! nat \<lfloor>real (length xs) * 0.75\<rfloor>)))"
proof -
  from detectColumnTypes_member [OF assms(1)]
  have c: "c = detectColumn B (take 100 data) (min 100 (length data)) (name c)" by simp
  with assms(2) have "type (detectColumn B (take 100 data) (min 100 (length data)) (name c)) = Numeric"
    by simp
  from detectColumn_numeric [OF this] c assms(3)
  obtain col where eq: "c = addStatistics (map Fin xs) col" by auto
  show ?thesis
    unfolding eq
    using addStatistics_min [OF assms(4)] addStatistics_max [OF assms(4)]
      addStatistics_mean [OF assms(4)] addStatistics_median [OF assms(4)]
      addStatistics_stdDev [OF assms(4)] addStatistics_quartiles [OF assms(4)]
    by (intro conjI) blast+
qed

lemma detectColumnTypes_small:
  "data \<noteq> [] \<Longrightarrow> length data \<le> 100 \<Longrightarrow>
   detectColumnTypes B data = map (detectColumn B data (length data)) (map fst (hd data))"
  by (simp add: detectColumnTypes_def inferColumns_def Let_def min_def)

lemma statistics_example:
  "map (\<lambda>c. (type c, mean c, median c, stdDev c, quartiles c))
     (detectColumnTypes B (table [''v''] [[1], [2], [3], [4], [5]]))
   = [(Numeric, Some (Fin 3), Some (Fin 3), Some (Fin (sqrt 2)),
       Some (Some (Fin 2), Some (Fin 3), Some (Fin 4)))]"
proof -
  let ?d = "table [''v''] [[1], [2], [3], [4], [5]]"
  let ?c = "detectColumn B ?d (length ?d) ''v''"
  have cs: "detectColumnTypes B ?d = [?c]"
    by (subst detectColumnTypes_small) (simp_all add: table_def)
  have vals: "columnValues ?d ''v'' = map (\<lambda>x. JNum (Fin x)) [1, 2, 3, 4, 5]"
    by (simp add: columnValues_def table_def cell_def)
  have ty: "type ?c = Numeric" by (simp add: detectColumn_type vals columnType_def)
  have mem: "?c \<in> set (detectColumnTypes B ?d)" by (simp add: cs)
  have tk: "take 100 ?d = ?d" by (simp add: table_def)
  have nums: "map (Number B) (columnValues (take 100 ?d) (name ?c)) = map Fin [1, 2, 3, 4, 5]"
    by (simp only: tk detectColumn_name vals) simp
  from statistics_of_numeric_column [OF mem ty nums]
  show ?thesis by (simp add: cs ty)
qed

lemma blank_cell_values:
  "columnValues [[(''v'', JNum (Fin 1))], [(''v'', JStr [])], [(''v'', JNum (Fin 3))]] ''v''
   = [JNum (Fin 1), JStr [], JNum (Fin 3)]"
  by (simp add: columnValues_def cell_def)

lemma blank_cell_column:
  "map (\<lambda>c. (type c, mean c, min_c c))
     (detectColumnTypes emptyStringBuiltins
        [[(''v'', JNum (Fin 1))], [(''v'', JStr [])], [(''v'', JNum (Fin 3))]])
   = [(Numeric, Some (Fin (4 / 3)), Some (Fin 0))]"
proof -
  let ?B = emptyStringBuiltins
  let ?d = "[[(''v'', JNum (Fin 1))], [(''v'', JStr [])], [(''v'', JNum (Fin 3))]]"
  let ?c = "detectColumn ?B ?d 3 ''v''"
  have len: "length ?d = 3" and keys: "map fst (hd ?d) = [''v'']" by simp_all
  have "detectColumnTypes ?B ?d = map (detectColumn ?B ?d (length ?d)) (map fst (hd ?d))"
    by (rule detectColumnTypes_small) simp_all
  then have cs: "detectColumnTypes ?B ?d = [?c]"
    by (simp only: len keys) simp
  have ty: "type ?c = Numeric"
    by (simp add: detectColumn_type blank_cell_values columnType_def emptyStringBuiltins_def)
  have mem: "?c \<in> set (detectColumnTypes ?B ?d)" by (simp add: cs)
  have nums: "map (Number ?B) (columnValues (take 100 ?d) (name ?c)) = map Fin [1, 0, 3]"
    by (simp add: detectColumn_name blank_cell_values emptyStringBuiltins_def)
  from statistics_of_numeric_column [OF mem ty nums]
  show ?thesis by (simp add: cs ty)
qed

text \<open>
  Claim C1, as stated: the statistics are not taken over the values that the
  specification calls non-missing. In the column 1, \<^verbatim>\<open>""\<close>, 3 the empty string is kept,
  coerces to 0 and enters the statistics: the mean is \<open>4/3\<close>, not the mean 2 of 1 and 3.
\<close>

theorem statistics_counterexample:
  "map mean (detectColumnTypes emptyStringBuiltins
       [[(''v'', JNum (Fin 1))], [(''v'', JStr [])], [(''v'', JNum (Fin 3))]])
   \<noteq> [Some (average (map (Number emptyStringBuiltins)
        (nonMissingValues (take 100 [[(''v'', JNum (Fin 1))], [(''v'', JStr [])],
                                     [(''v'', JNum (Fin 3))]]) ''v'')))]"
proof -
  have "average (map (Number emptyStringBuiltins)
        (nonMissingValues (take 100 [[(''v'', JNum (Fin 1))], [(''v'', JStr [])],
                                     [(''v'', JNum (Fin 3))]]) ''v'')) = Fin 2"
    by (simp add: nonMissingValues_def cell_def average_def numSum_def)
  moreover have "map mean (detectColumnTypes emptyStringBuiltins
       [[(''v'', JNum (Fin 1))], [(''v'', JStr [])], [(''v'', JNum (Fin 3))]])
     = [Some (Fin (4 / 3))]"
    using arg_cong [OF blank_cell_column, of "map (\<lambda>t. fst (snd t))"] by (simp add: comp_def)
  ultimately show ?thesis by simp
qed

text \<open>
  Claim C1, amended. For a column that type inference makes numeric, let \<open>xs\<close> be the
  cells of the first 100 rows other than \<^verbatim>\<open>null\<close> and \<^verbatim>\<open>undefined\<close>, each coerced with
  \<^verbatim>\<open>Number\<close> (an empty string is not left out and counts as 0), all finite and at least
  one. Then the minimum and maximum are those of \<open>xs\<close>, the mean is the arithmetic
  mean, the median is the middle element of the ascending sort or the average of the two
  central ones, the standard deviation divides the sum of squared deviations by \<open>N\<close>,
  and the quartiles are the sorted values at \<open>floor(N*0.25)\<close>, \<open>floor(N*0.5)\<close> and
  \<open>floor(N*0.75)\<close>. For the values 1, 2, 3, 4, 5 the mean is 3, the median 3, the
  standard deviation \<open>sqrt 2\<close> and the quartiles 2, 3 and 4.
\<close>

theorem numeric_column_statistics:
  assumes "c \<in> set (detectColumnTypes B data)" and "type c = Numeric"
    and "map (Number B) (filter (\<lambda>v. v \<noteq> JNull \<and> v \<noteq> JUndefined)
                           (map (\<lambda>r. cell r (name c)) (take 100 data))) = map Fin xs"
    and "xs \<noteq> []"
  shows "(min_c c = Some (Fin (Min (set xs)))
       \<and> max_c c = Some (Fin (Max (set xs)))
       \<and> mean c = Some (Fin (sum_list xs / real (length xs)))
       \<and> median c = Some (Fin (if even (length xs)
                  then (sort xs ! (length xs div 2 - 1) + sort xs ! (length xs div 2)) / 2
                  else sort xs ! (length xs div 2)))
       \<and> stdDev c = Some (Fin (sqrt ((\<Sum>x\<leftarrow>xs. (x - sum_list xs / real (length xs))\<^sup>2)
                                     / real (length xs))))
       \<and> quartiles c = Some (Some (Fin (sort xs ! nat \<lfloor>real (length xs) * 0.25\<rfloor>)),
                              Some (Fin (sort xs ! nat \<lfloor>real (length xs) * 0.5\<rfloor>)),
                              Some (Fin (sort xs ! nat \<lfloor>real (length xs) * 0.75\<rfloor>))))
     \<and> map (\<lambda>c. (type c, mean c, median c, stdDev c, quartiles c))
           (detectColumnTypes B (table [''v''] [[1], [2], [3], [4], [5]]))
         = [(Numeric, Some (Fin 3), Some (Fin 3), Some (Fin (sqrt 2)),
             Some (Some (Fin 2), Some (Fin 3), Some (Fin 4)))]"
proof -
  from assms(3) have "map (Number B) (columnValues (take 100 data) (name c)) = map Fin xs"
    by (simp only: columnValues_def)
  from statistics_of_numeric_column [OF assms(1,2) this assms(4)] statistics_example [of B]
  show ?thesis by blast
qed

theorem numeric_column_statistics_witness:
  "detectColumn emptyStringBuiltins
       [[(''v'', JNum (Fin 4))], [(''v'', JNull)], [(''v'', JNum (Fin 1))], [(''v'', JStr [])],
        [(''w'', JNum (Fin 7))], [(''v'', JNum (Fin 3))]] 6 ''v''
     \<in> set (detectColumnTypes emptyStringBuiltins
       [[(''v'', JNum (Fin 4))], [(''v'', JNull)], [(''v'', JNum (Fin 1))], [(''v'', JStr [])],
        [(''w'', JNum (Fin 7))], [(''v'', JNum (Fin 3))]])
   \<and> map (\<lambda>c. (type c, missingValues c, min_c c, max_c c, mean c, median c, stdDev c, quartiles c))
       (detectColumnTypes emptyStringBuiltins
         [[(''v'', JNum (Fin 4))], [(''v'', JNull)], [(''v'', JNum (Fin 1))], [(''v'', JStr [])],
          [(''w'', JNum (Fin 7))], [(''v'', JNum (Fin 3))]])
     = [(Numeric, 2, Some (Fin 0), Some (Fin 4), Some (Fin 2), Some (Fin 2),
         Some (Fin (sqrt (5 / 2))), Some (Some (Fin 1), Some (Fin 3), Some (Fin 4)))]
   \<and> map (Number emptyStringBuiltins) (filter (\<lambda>v. v \<noteq> JNull \<and> v \<noteq> JUndefined)
         (map (\<lambda>r. cell r ''v'')
           (take 100 [[(''v'', JNum (Fin 4))], [(''v'', JNull)], [(''v'', JNum (Fin 1))],
                      [(''v'', JStr [])], [(''w'', JNum (Fin 7))], [(''v'', JNum (Fin 3))]])))
     = map Fin [4, 1, 0, 3]"
proof -
  let ?B = emptyStringBuiltins
  let ?d = "[[(''v'', JNum (Fin 4))], [(''v'', JNull)], [(''v'', JNum (Fin 1))], [(''v'', JStr [])],
        [(''w'', JNum (Fin 7))], [(''v'', JNum (Fin 3))]]"
  let ?c = "detectColumn ?B ?d 6 ''v''"
  have len: "length ?d = 6" and keys: "map fst (hd ?d) = [''v'']" by simp_all
  have "detectColumnTypes ?B ?d = map (detectColumn ?B ?d (length ?d)) (map fst (hd ?d))"
    by (rule detectColumnTypes_small) simp_all
  then have cs: "detectColumnTypes ?B ?d = [?c]"
    by (simp only: len keys) simp
  have vals: "columnValues ?d ''v'' = [JNum (Fin 4), JNum (Fin 1), JStr [], JNum (Fin 3)]"
    by (simp add: columnValues_def cell_def)
  have ty: "type ?c = Numeric"
    by (simp add: detectColumn_type vals columnType_def emptyStringBuiltins_def)
  have mv: "missingValues ?c = 2"
    by (simp add: detectColumn_def addStatistics_def Let_def vals)
  have mem: "?c \<in> set (detectColumnTypes ?B ?d)" by (simp add: cs)
  have nums: "map (Number ?B) (filter (\<lambda>v. v \<noteq> JNull \<and> v \<noteq> JUndefined)
                 (map (\<lambda>r. cell r (name ?c)) (take 100 ?d))) = map Fin [4, 1, 0, 3]"
    by (simp add: detectColumn_name cell_def emptyStringBuiltins_def)
  have nums': "map (Number ?B) (filter (\<lambda>v. v \<noteq> JNull \<and> v \<noteq> JUndefined)
                 (map (\<lambda>r. cell r ''v'') (take 100 ?d))) = map Fin [4, 1, 0, 3]"
    using nums by (simp only: detectColumn_name)
  have ne: "[4, 1, 0, 3] \<noteq> ([] :: real list)" by simp
  have sq: "(2 :: real)\<^sup>2 = 4" by simp
  from numeric_column_statistics [OF mem ty nums ne]
  have "map (\<lambda>c. (type c, missingValues c, min_c c, max_c c, mean c, median c, stdDev c, quartiles c))
       (detectColumnTypes ?B ?d)
     = [(Numeric, 2, Some (Fin 0), Some (Fin 4), Some (Fin 2), Some (Fin 2),
         Some (Fin (sqrt (5 / 2))), Some (Some (Fin 1), Some (Fin 3), Some (Fin 4)))]"
    by (simp add: cs ty mv)
  with mem nums' show ?thesis by (intro conjI)
qed

section \<open>Missing values and duplicate rows\<close>

lemma foldl_count:
  "foldl (\<lambda>t v. if P v then t + 1 else t) (a::nat) xs = a + length (filter P xs)"
  by (induction xs arbitrary: a) simp_all














section \<open>A zero first-quarter average in the trend detector\<close>

text \<open>
  Claim C4. Dividing by a first-quarter average of zero throws nothing: the detector
  returns a trend whose percent change is \<open>Infinity\<close> (direction increasing) when the
  last-quarter average is positive, and \<open>NaN\<close> (direction stable) when it is zero too.
  The pair is reported, not skipped.
\<close>

theorem zero_first_average_reported:
  "detectTimeTrends B (table [''d'', ''v''] [[1, 0], [2, 1], [3, 2], [4, 3], [5, 4]]) ''d'' ''v''
   = Some \<lparr>trendDirection = Increasing, percentChange = PInf, seasonality = False,
           movingAverage = [Fin 1, Fin 2, Fin 3]\<rparr>
  \<and> detectTimeTrends B (table [''d'', ''v''] [[1, 0], [2, 0], [3, 0], [4, 0], [5, 0]]) ''d'' ''v''
   = Some \<lparr>trendDirection = Stable, percentChange = NaN, seasonality = False,
           movingAverage = [Fin 0, Fin 0, Fin 0]\<rparr>"
  by (simp add: detectTimeTrends_def table_def jsSort_def byDate_def cell_def jsub_def jgt_def
        average_def numSum_def signedInf_def signChange_def Let_def)

section \<open>Entries of the outlier mapping\<close>

lemma outlierEntry_Some_iff:
  "(\<exists>e. outlierEntry B data colName = Some e)
   \<longleftrightarrow> 5 \<le> length (columnValues data colName)
       \<and> (\<exists>r \<in> set data. isOutlier B colName (columnFences (columnNumbers B data colName)) r)"
  by (auto simp: outlierEntry_def Let_def columnNumbers_def filter_empty_conv)

lemma outlierEntry_fields:
  assumes "outlierEntry B data colName = Some e"
  shows "boundaries e = columnFences (columnNumbers B data colName)"
    and "count e = length (filter (isOutlier B colName (boundaries e)) data)"
    and "examples e = take 5 (filter (isOutlier B colName (boundaries e)) data)"
    and "0 < count e"
  using assms by (auto simp: outlierEntry_def Let_def split: if_splits)


text \<open>
  Claim C9, amended. The mapping returned by the outlier detector has an entry for a
  column name exactly when some column of that name is typed numeric, at least five
  cells of the column in the data are other than \<^verbatim>\<open>null\<close> and \<^verbatim>\<open>undefined\<close> (an empty
  string counts), and at least one row of the data passes the fence test, the fences
  being those of these cells coerced with \<^verbatim>\<open>Number\<close>. Every entry has a positive count:
  a column without a flagged row gets no entry.
\<close>

theorem outlier_entry_iff:
  "((\<exists>e. identifyOutliers B data cols colName = Some e)
     \<longleftrightarrow> (\<exists>col \<in> set cols. name col = colName \<and> type col = Numeric)
         \<and> 5 \<le> length (filter (\<lambda>v. v \<noteq> JNull \<and> v \<noteq> JUndefined)
                         (map (\<lambda>r. cell r colName) data))
         \<and> (\<exists>r \<in> set data.
               jlt (Number B (cell r colName))
                   (fst (columnFences (map (Number B)
                      (filter (\<lambda>v. v \<noteq> JNull \<and> v \<noteq> JUndefined)
                         (map (\<lambda>r. cell r colName) data)))))
             \<or> jgt (Number B (cell r colName))
                   (snd (columnFences (map (Number B)
                      (filter (\<lambda>v. v \<noteq> JNull \<and> v \<noteq> JUndefined)
                         (map (\<lambda>r. cell r colName) data)))))))
   \<and> (\<forall>e. identifyOutliers B data cols colName = Some e \<longrightarrow> 0 < count e)"
proof -
  have "(\<exists>e. identifyOutliers B data cols colName = Some e)
     \<longleftrightarrow> (\<exists>col \<in> set cols. name col = colName \<and> type col = Numeric)
         \<and> (\<exists>e. outlierEntry B data colName = Some e)"
    by (simp add: identifyOutliers_lookup)
  moreover have "\<forall>e. identifyOutliers B data cols colName = Some e \<longrightarrow> 0 < count e"
    by (auto simp: identifyOutliers_lookup outlierEntry_fields(4) split: if_splits)
  ultimately show ?thesis
    by (simp add: outlierEntry_Some_iff isOutlier_def Let_def columnNumbers_def columnValues_def)
qed


lemma single_column_table:
  assumes "rows \<noteq> []" and "length rows \<le> 100" and "\<forall>r \<in> set rows. length r = 1"
  shows "detectColumnTypes B (table [k] rows)
         = [detectColumn B (table [k] rows) (length rows) k]"
proof -
  have "hd (table [k] rows) = zip [k] (map (\<lambda>x. JNum (Fin x)) (hd rows))"
    using assms(1) by (simp add: table_def hd_map)
  moreover have "length (hd rows) = 1" using assms(1,3) by simp
  ultimately have keys: "map fst (hd (table [k] rows)) = [k]"
    by (cases "hd rows") simp_all
  have "detectColumnTypes B (table [k] rows)
        = map (detectColumn B (table [k] rows) (length (table [k] rows)))
              (map fst (hd (table [k] rows)))"
    using assms(1,2) by (intro detectColumnTypes_small) (simp_all add: table_def)
  then show ?thesis by (simp only: keys) (simp add: table_def)
qed

lemma single_column_values:
  "columnValues (table [k] (map (\<lambda>x. [x]) xs)) k = map (\<lambda>x. JNum (Fin x)) xs"
  by (induction xs) (simp_all add: columnValues_def table_def cell_def)

lemma single_column_numbers:
  "columnNumbers B (table [k] (map (\<lambda>x. [x]) xs)) k = map Fin xs"
  by (simp add: columnNumbers_def single_column_values)

lemma single_column_numeric:
  assumes "xs \<noteq> []" and "length xs \<le> 100"
  shows "\<exists>c \<in> set (detectColumnTypes B (table [k] (map (\<lambda>x. [x]) xs))). name c = k \<and> type c = Numeric"
proof -
  have "detectColumnTypes B (table [k] (map (\<lambda>x. [x]) xs))
        = [detectColumn B (table [k] (map (\<lambda>x. [x]) xs)) (length (map (\<lambda>x. [x]) xs)) k]"
    using assms by (intro single_column_table) auto
  moreover have "list_all (isNumberLike B) (map (\<lambda>x. JNum (Fin x)) xs)"
    by (simp add: list_all_iff)
  ultimately show ?thesis
    by (simp add: detectColumn_name detectColumn_type single_column_values columnType_def)
qed

lemma example_fences: "columnFences (map Fin [1, 2, 3, 4, 5, 100]) = (Fin (- 5 / 2), Fin (19 / 2))"
proof -
  have "sort [1, 2, 3, 4, 5, 100 :: real] = [1, 2, 3, 4, 5, 100]" by simp
  then have s: "sortNumbers (map Fin [1, 2, 3, 4, 5, 100]) = map Fin [1, 2, 3, 4, 5, 100]"
    by (simp only: sortNumbers_Fin)
  show ?thesis
    unfolding columnFences_def s Let_def
    by (simp add: fences_def jsub_def elemAt_def)
qed

lemma example_outlier_entry:
  "identifyOutliers B (table [''v''] [[1], [2], [3], [4], [5], [100]])
     (detectColumnTypes B (table [''v''] [[1], [2], [3], [4], [5], [100]])) ''v''
   = Some \<lparr>count = 1, percentage = Fin (1667 / 100),
            boundaries = (Fin (- 5 / 2), Fin (19 / 2)),
            examples = [[(''v'', JNum (Fin 100))]]\<rparr>"
proof -
  let ?d = "table [''v''] [[1], [2], [3], [4], [5], [100]]"
  have m: "[[1], [2], [3], [4], [5], [100]] = map (\<lambda>x. [x]) [1, 2, 3, 4, 5, 100 :: real]"
    by simp
  have num: "\<exists>c \<in> set (detectColumnTypes B ?d). name c = ''v'' \<and> type c = Numeric"
    unfolding m by (rule single_column_numeric) simp_all
  have nums: "columnNumbers B ?d ''v'' = map Fin [1, 2, 3, 4, 5, 100]"
    unfolding m by (rule single_column_numbers)
  have d: "?d = [[(''v'', JNum (Fin 1))], [(''v'', JNum (Fin 2))], [(''v'', JNum (Fin 3))],
                 [(''v'', JNum (Fin 4))], [(''v'', JNum (Fin 5))], [(''v'', JNum (Fin 100))]]"
    by (simp add: table_def)
  have "outlierEntry B ?d ''v''
        = Some \<lparr>count = 1, percentage = Fin (1667 / 100),
            boundaries = (Fin (- 5 / 2), Fin (19 / 2)),
            examples = [[(''v'', JNum (Fin 100))]]\<rparr>"
    unfolding outlierEntry_def nums example_fences Let_def
    by (simp add: d isOutlier_def cell_def jgt_def)
  then show ?thesis using num by (simp only: identifyOutliers_lookup if_True)
qed

text \<open>
  Claim C2, as stated: for the values 1, 2, 3, 4, 5, 100 the fences are not \<open>(-1, 7)\<close>.
\<close>

theorem outlier_fences_counterexample:
  "map_option boundaries
     (identifyOutliers exampleBuiltins (table [''v''] [[1], [2], [3], [4], [5], [100]])
        (detectColumnTypes exampleBuiltins (table [''v''] [[1], [2], [3], [4], [5], [100]])) ''v'')
   \<noteq> Some (Fin (- 1), Fin 7)"
  by (simp add: example_outlier_entry)

text \<open>
  Claim C2, amended. For the values 1, 2, 3, 4, 5, 100 the sorted value at index
  \<open>floor(6 * 0.25) = 1\<close> is 2 and the one at index \<open>floor(6 * 0.75) = 4\<close> is 5, so the
  interquartile range is 3 and the fences are \<open>(-2.5, 9.5)\<close>; the row holding 100 is the
  only one flagged.
\<close>

theorem outlier_fences_example:
  "elemAt (sortNumbers (columnNumbers B (table [''v''] [[1], [2], [3], [4], [5], [100]]) ''v''))
       (int 6 div 4) = Some (Fin 2)
   \<and> elemAt (sortNumbers (columnNumbers B (table [''v''] [[1], [2], [3], [4], [5], [100]]) ''v''))
       (3 * int 6 div 4) = Some (Fin 5)
   \<and> identifyOutliers B (table [''v''] [[1], [2], [3], [4], [5], [100]])
       (detectColumnTypes B (table [''v''] [[1], [2], [3], [4], [5], [100]])) ''v''
     = Some \<lparr>count = 1, percentage = Fin (1667 / 100),
              boundaries = (Fin (- 5 / 2), Fin (19 / 2)),
              examples = [[(''v'', JNum (Fin 100))]]\<rparr>"
proof -
  have m: "[[1], [2], [3], [4], [5], [100]] = map (\<lambda>x. [x]) [1, 2, 3, 4, 5, 100 :: real]"
    by simp
  have nums: "columnNumbers B (table [''v''] [[1], [2], [3], [4], [5], [100]]) ''v''
              = map Fin [1, 2, 3, 4, 5, 100]"
    unfolding m by (rule single_column_numbers)
  have "sort [1, 2, 3, 4, 5, 100 :: real] = [1, 2, 3, 4, 5, 100]" by simp
  then have s: "sortNumbers (map Fin [1, 2, 3, 4, 5, 100]) = map Fin [1, 2, 3, 4, 5, 100]"
    by (simp only: sortNumbers_Fin)
  show ?thesis
    unfolding nums s by (simp add: example_outlier_entry elemAt_def)
qed

lemma one_column_numeric:
  assumes "data \<noteq> []" and "length data \<le> 100" and "map fst (hd data) = [k]"
    and "list_all (isNumberLike B) (columnValues data k)"
  shows "\<exists>col \<in> set (detectColumnTypes B data). name col = k \<and> type col = Numeric"
proof -
  have "detectColumnTypes B data = [detectColumn B data (length data) k]"
    using detectColumnTypes_small [OF assms(1,2), of B] by (simp add: assms(3))
  then show ?thesis
    using assms(4) by (simp add: detectColumn_name detectColumn_type columnType_def)
qed

lemma blank_fences: "columnFences (map Fin [5, 0, 0, 0, 0]) = (Fin 0, Fin 0)"
proof -
  have "sort [5, 0, 0, 0, 0 :: real] = [0, 0, 0, 0, 5]" by simp
  then have s: "sortNumbers (map Fin [5, 0, 0, 0, 0]) = map Fin [0, 0, 0, 0, 5]"
    by (simp only: sortNumbers_Fin)
  show ?thesis
    unfolding columnFences_def s Let_def
    by (simp add: fences_def jsub_def elemAt_def Let_def)
qed

text \<open>
  Claim C9, as stated: a numeric column holding 5 and four empty strings has one value
  that the specification calls non-missing, yet the detector keeps all five cells, reads
  the empty strings as 0, gets the fences \<open>(0, 0)\<close> and returns an entry for the column.
\<close>

theorem outlier_entry_counterexample:
  "identifyOutliers emptyStringBuiltins
      [[(''v'', JNum (Fin 5))], [(''v'', JStr [])], [(''v'', JStr [])], [(''v'', JStr [])],
       [(''v'', JStr [])]]
      (detectColumnTypes emptyStringBuiltins
        [[(''v'', JNum (Fin 5))], [(''v'', JStr [])], [(''v'', JStr [])], [(''v'', JStr [])],
         [(''v'', JStr [])]]) ''v''
     \<noteq> None
   \<and> length (nonMissingValues
        [[(''v'', JNum (Fin 5))], [(''v'', JStr [])], [(''v'', JStr [])], [(''v'', JStr [])],
         [(''v'', JStr [])]] ''v'') = 1"
proof -
  let ?B = emptyStringBuiltins
  let ?d = "[[(''v'', JNum (Fin 5))], [(''v'', JStr [])], [(''v'', JStr [])], [(''v'', JStr [])],
       [(''v'', JStr [])]]"
  have vals: "columnValues ?d ''v'' = [JNum (Fin 5), JStr [], JStr [], JStr [], JStr []]"
    by (simp add: columnValues_def cell_def)
  have num: "\<exists>col \<in> set (detectColumnTypes ?B ?d). name col = ''v'' \<and> type col = Numeric"
    by (rule one_column_numeric) (simp_all add: vals emptyStringBuiltins_def)
  have nums: "columnNumbers ?B ?d ''v'' = map Fin [5, 0, 0, 0, 0]"
    by (simp add: columnNumbers_def vals emptyStringBuiltins_def)
  have "\<exists>e. outlierEntry ?B ?d ''v'' = Some e"
    unfolding outlierEntry_def nums blank_fences Let_def
    by (simp add: isOutlier_def cell_def jgt_def)
  then have "identifyOutliers ?B ?d (detectColumnTypes ?B ?d) ''v'' \<noteq> None"
    using num by (simp only: identifyOutliers_lookup if_True) auto
  moreover have "length (nonMissingValues ?d ''v'') = 1"
    by (simp add: nonMissingValues_def cell_def)
  ultimately show ?thesis by (intro conjI)
qed

theorem outlier_entry_iff_witness:
  "identifyOutliers exampleBuiltins
      [[(''v'', JNum (Fin 1))], [(''v'', JNum (Fin 2))], [(''v'', JNum (Fin 3))],
       [(''v'', JNum (Fin 4))], [(''v'', JNum (Fin 5))], [(''v'', JNum (Fin 100))], [(''v'', JNull)]]
      (detectColumnTypes exampleBuiltins
        [[(''v'', JNum (Fin 1))], [(''v'', JNum (Fin 2))], [(''v'', JNum (Fin 3))],
         [(''v'', JNum (Fin 4))], [(''v'', JNum (Fin 5))], [(''v'', JNum (Fin 100))],
         [(''v'', JNull)]]) ''v''
     \<noteq> None
   \<and> length (filter (\<lambda>v. v \<noteq> JNull \<and> v \<noteq> JUndefined) (map (\<lambda>r. cell r ''v'')
        [[(''v'', JNum (Fin 1))], [(''v'', JNum (Fin 2))], [(''v'', JNum (Fin 3))],
         [(''v'', JNum (Fin 4))], [(''v'', JNum (Fin 5))], [(''v'', JNum (Fin 100))],
         [(''v'', JNull)]])) = 6
   \<and> jgt (Number exampleBuiltins (cell [(''v'', JNum (Fin 100))] ''v''))
         (snd (columnFences (map (Number exampleBuiltins)
            (filter (\<lambda>v. v \<noteq> JNull \<and> v \<noteq> JUndefined) (map (\<lambda>r. cell r ''v'')
              [[(''v'', JNum (Fin 1))], [(''v'', JNum (Fin 2))], [(''v'', JNum (Fin 3))],
               [(''v'', JNum (Fin 4))], [(''v'', JNum (Fin 5))], [(''v'', JNum (Fin 100))],
               [(''v'', JNull)]])))))
   \<and> identifyOutliers exampleBuiltins
      [[(''v'', JNum (Fin 1))], [(''v'', JNum (Fin 2))], [(''v'', JNum (Fin 3))],
       [(''v'', JNum (Fin 100))], [(''v'', JNull)], [(''v'', JNull)]]
      (detectColumnTypes exampleBuiltins
        [[(''v'', JNum (Fin 1))], [(''v'', JNum (Fin 2))], [(''v'', JNum (Fin 3))],
         [(''v'', JNum (Fin 100))], [(''v'', JNull)], [(''v'', JNull)]]) ''v''
     = None
   \<and> length (filter (\<lambda>v. v \<noteq> JNull \<and> v \<noteq> JUndefined) (map (\<lambda>r. cell r ''v'')
        [[(''v'', JNum (Fin 1))], [(''v'', JNum (Fin 2))], [(''v'', JNum (Fin 3))],
         [(''v'', JNum (Fin 100))], [(''v'', JNull)], [(''v'', JNull)]])) = 4"
proof -
  let ?B = exampleBuiltins
  let ?d = "[[(''v'', JNum (Fin 1))], [(''v'', JNum (Fin 2))], [(''v'', JNum (Fin 3))],
       [(''v'', JNum (Fin 4))], [(''v'', JNum (Fin 5))], [(''v'', JNum (Fin 100))], [(''v'', JNull)]]"
  let ?e = "[[(''v'', JNum (Fin 1))], [(''v'', JNum (Fin 2))], [(''v'', JNum (Fin 3))],
       [(''v'', JNum (Fin 100))], [(''v'', JNull)], [(''v'', JNull)]]"
  have vals: "columnValues ?d ''v'' = map (\<lambda>x. JNum (Fin x)) [1, 2, 3, 4, 5, 100]"
    by (simp add: columnValues_def cell_def)
  have num: "\<exists>col \<in> set (detectColumnTypes ?B ?d). name col = ''v'' \<and> type col = Numeric"
    by (rule one_column_numeric) (simp_all add: vals)
  have flt: "filter (\<lambda>v. v \<noteq> JNull \<and> v \<noteq> JUndefined) (map (\<lambda>r. cell r ''v'') ?d)
             = map (\<lambda>x. JNum (Fin x)) [1, 2, 3, 4, 5, 100]"
    by (simp add: cell_def)
  have nums: "map (Number ?B) (filter (\<lambda>v. v \<noteq> JNull \<and> v \<noteq> JUndefined)
                 (map (\<lambda>r. cell r ''v'') ?d)) = map Fin [1, 2, 3, 4, 5, 100]"
    by (simp only: flt) simp
  have len: "length (filter (\<lambda>v. v \<noteq> JNull \<and> v \<noteq> JUndefined) (map (\<lambda>r. cell r ''v'') ?d)) = 6"
    by (simp only: flt) simp
  have mem: "[(''v'', JNum (Fin 100))] \<in> set ?d" by simp
  have big: "jgt (Number ?B (cell [(''v'', JNum (Fin 100))] ''v''))
               (snd (columnFences (map (Number ?B)
                  (filter (\<lambda>v. v \<noteq> JNull \<and> v \<noteq> JUndefined) (map (\<lambda>r. cell r ''v'') ?d)))))"
    unfolding nums example_fences by (simp add: cell_def jgt_def)
  note t = outlier_entry_iff [of ?B ?d "detectColumnTypes ?B ?d" "''v''", THEN conjunct1]
  have r3: "\<exists>r \<in> set ?d.
               jlt (Number ?B (cell r ''v''))
                   (fst (columnFences (map (Number ?B)
                      (filter (\<lambda>v. v \<noteq> JNull \<and> v \<noteq> JUndefined)
                         (map (\<lambda>r. cell r ''v'') ?d)))))
             \<or> jgt (Number ?B (cell r ''v''))
                   (snd (columnFences (map (Number ?B)
                      (filter (\<lambda>v. v \<noteq> JNull \<and> v \<noteq> JUndefined)
                         (map (\<lambda>r. cell r ''v'') ?d)))))"
    by (rule bexI [where x = "[(''v'', JNum (Fin 100))]"], rule disjI2, rule big, rule mem)
  have l5: "5 \<le> length (filter (\<lambda>v. v \<noteq> JNull \<and> v \<noteq> JUndefined)
                         (map (\<lambda>r. cell r ''v'') ?d))"
    unfolding len by simp
  have "\<exists>e. identifyOutliers ?B ?d (detectColumnTypes ?B ?d) ''v'' = Some e"
    by (rule iffD2 [OF t]) (intro conjI, rule num, rule l5, rule r3)
  then have yes: "identifyOutliers ?B ?d (detectColumnTypes ?B ?d) ''v'' \<noteq> None" by auto
  have len': "length (filter (\<lambda>v. v \<noteq> JNull \<and> v \<noteq> JUndefined) (map (\<lambda>r. cell r ''v'') ?e)) = 4"
    by (simp add: cell_def)
  note t' = outlier_entry_iff [of ?B ?e "detectColumnTypes ?B ?e" "''v''", THEN conjunct1]
  have "\<not> (\<exists>e. identifyOutliers ?B ?e (detectColumnTypes ?B ?e) ''v'' = Some e)"
  proof
    assume "\<exists>e. identifyOutliers ?B ?e (detectColumnTypes ?B ?e) ''v'' = Some e"
    from iffD1 [OF t' this]
    have "5 \<le> length (filter (\<lambda>v. v \<noteq> JNull \<and> v \<noteq> JUndefined)
                         (map (\<lambda>r. cell r ''v'') ?e))"
      by (elim conjE)
    then have "5 \<le> (4 :: nat)" unfolding len' .
    then show False by simp
  qed
  then have no: "identifyOutliers ?B ?e (detectColumnTypes ?B ?e) ''v'' = None" by auto
  show ?thesis by (intro conjI) (rule yes, rule len, rule big, rule no, rule len')
qed


section \<open>The outlier total of the data quality summary\<close>

lemma qualityOutlier_fun:
  "qualityOutlier B c bounds
   = (\<lambda>r. \<not> isNaN (Number B (cell r (name c)))
          \<and> (jlt (Number B (cell r (name c))) (fst bounds)
             \<or> jgt (Number B (cell r (name c))) (snd bounds)))"
  by (rule ext) (simp add: qualityOutlier_def Let_def)

lemma countColumnOutliers_eq:
  "countColumnOutliers B data a c
   = a + (case quartiles c of
            None \<Rightarrow> 0
          | Some (qa, qb, qc) \<Rightarrow>
              if type c = Numeric
              then length (filter (\<lambda>r. \<not> isNaN (Number B (cell r (name c)))
                     \<and> (jlt (Number B (cell r (name c))) (fst (fences (numOf qa) (numOf qc)))
                        \<or> jgt (Number B (cell r (name c))) (snd (fences (numOf qa) (numOf qc)))))
                   data)
              else 0)"
  by (simp add: countColumnOutliers_def foldl_count qualityOutlier_fun
        split: option.splits prod.splits)

lemma foldl_countColumnOutliers:
  "foldl (countColumnOutliers B data) a cols
   = a + (\<Sum>c\<leftarrow>cols. countColumnOutliers B data 0 c)"
proof (induction cols arbitrary: a)
  case Nil
  then show ?case by simp
next
  case (Cons c cols)
  have "countColumnOutliers B data a c = a + countColumnOutliers B data 0 c"
    by (simp add: countColumnOutliers_eq)
  then show ?case by (simp add: Cons.IH)
qed

lemma countOutliers_sum:
  "countOutliers B cols data = (\<Sum>c\<leftarrow>cols. countColumnOutliers B data 0 c)"
  by (simp add: countOutliers_def foldl_countColumnOutliers)

lemma detectColumnTypes_take: "detectColumnTypes B data = detectColumnTypes B (take 100 data)"
proof (cases data)
  case Nil
  then show ?thesis by simp
next
  case (Cons r rs)
  then show ?thesis by (simp add: detectColumnTypes_def Let_def min_def)
qed

lemma fences_Fin:
  "fences (Fin a) (Fin b) = (Fin (a - 3 / 2 * (b - a)), Fin (b + 3 / 2 * (b - a)))"
  by (simp add: fences_def jsub_def Let_def)

lemma single_column_scan:
  "length (filter (\<lambda>r. \<not> isNaN (Number B (cell r k))
                     \<and> (jlt (Number B (cell r k)) (Fin lo) \<or> jgt (Number B (cell r k)) (Fin hi)))
            (table [k] (map (\<lambda>x. [x]) ys)))
   = length (filter (\<lambda>y. y < lo \<or> hi < y) ys)"
  by (induction ys) (simp_all add: table_def cell_def jgt_def)

lemma single_column_outliers:
  assumes "xs \<noteq> []"
  shows "countColumnOutliers B (table [k] (map (\<lambda>x. [x]) ys)) 0
           (detectColumn B (table [k] (map (\<lambda>x. [x]) xs)) n k)
         = length (filter (\<lambda>y. y < sort xs ! (length xs div 4)
                                    - 3 / 2 * (sort xs ! (3 * length xs div 4)
                                                - sort xs ! (length xs div 4))
                             \<or> sort xs ! (3 * length xs div 4)
                                    + 3 / 2 * (sort xs ! (3 * length xs div 4)
                                                - sort xs ! (length xs div 4)) < y) ys)"
proof -
  let ?c = "detectColumn B (table [k] (map (\<lambda>x. [x]) xs)) n k"
  have "list_all (isNumberLike B) (map (\<lambda>x. JNum (Fin x)) xs)" by (simp add: list_all_iff)
  then have ty: "type ?c = Numeric"
    by (simp add: detectColumn_type single_column_values columnType_def)
  from detectColumn_numeric [OF ty] obtain col where c: "?c = addStatistics (map Fin xs) col"
    by (auto simp: single_column_values comp_def)
  have f: "nat \<lfloor>real (length xs) * 0.25\<rfloor> = length xs div 4"
          "nat \<lfloor>real (length xs) * 0.75\<rfloor> = 3 * length xs div 4"
  proof -
    have "int (length xs) div 4 = int (length xs div 4)"
         "3 * int (length xs) div 4 = int (3 * length xs div 4)"
      by (simp_all add: zdiv_int)
    then show "nat \<lfloor>real (length xs) * 0.25\<rfloor> = length xs div 4"
         "nat \<lfloor>real (length xs) * 0.75\<rfloor> = 3 * length xs div 4"
      by (simp_all only: floor_quarter floor_three_quarters nat_int)
  qed
  have q: "quartiles ?c = Some (Some (Fin (sort xs ! (length xs div 4))),
                               Some (Fin (sort xs ! nat \<lfloor>real (length xs) * 0.5\<rfloor>)),
                               Some (Fin (sort xs ! (3 * length xs div 4))))"
    using addStatistics_quartiles [OF assms, of col] by (simp only: c f)
  show ?thesis
    by (simp only: countColumnOutliers_eq q ty detectColumn_name option.case prod.case if_True
          numOf.simps fences_Fin fst_conv snd_conv single_column_scan add_0 simp_thms)
qed

lemma sample_versus_full_set:
  "outliers (analyzeDataQuality B (table [''v''] (map (\<lambda>x. [x]) (replicate 100 0 @ replicate 34 7))))
     = 34
   \<and> fullSetOutliers B (table [''v''] (map (\<lambda>x. [x]) (replicate 100 0 @ replicate 34 7))) = 0"
proof -
  let ?xs = "replicate 100 0 @ replicate 34 (7 :: real)"
  let ?d = "table [''v''] (map (\<lambda>x. [x]) ?xs)"
  have ne: "?d \<noteq> []" by (simp add: table_def)
  have tk: "take 100 ?d = table [''v''] (map (\<lambda>x. [x]) (replicate 100 0))"
    by (simp add: table_def)
  have "detectColumnTypes B (take 100 ?d)
        = [detectColumn B (take 100 ?d) (length (map (\<lambda>x. [x]) (replicate 100 (0 :: real)))) ''v'']"
    unfolding tk by (rule single_column_table) auto
  then have cs: "detectColumnTypes B ?d
        = [detectColumn B (table [''v''] (map (\<lambda>x. [x]) (replicate 100 0))) 100 ''v'']"
    by (simp only: detectColumnTypes_take [of B ?d] tk) simp
  have s1: "sort (replicate 100 (0 :: real)) = replicate 100 0"
    by (rule sorted_sort_id) simp
  have "outliers (analyzeDataQuality B ?d) = countOutliers B (detectColumnTypes B ?d) ?d"
    using ne by (simp only: analyzeDataQuality_def if_False DataQuality.select_convs)
  also have "\<dots> = countColumnOutliers B ?d 0
                (detectColumn B (table [''v''] (map (\<lambda>x. [x]) (replicate 100 0))) 100 ''v'')"
    by (simp only: cs countOutliers_sum list.map sum_list.Cons sum_list.Nil add_0_right)
  also have "\<dots> = length (filter (\<lambda>y. y < sort (replicate 100 0) ! (length (replicate 100 (0::real)) div 4)
                                    - 3 / 2 * (sort (replicate 100 0) ! (3 * length (replicate 100 (0::real)) div 4)
                                                - sort (replicate 100 0) ! (length (replicate 100 (0::real)) div 4))
                             \<or> sort (replicate 100 0) ! (3 * length (replicate 100 (0::real)) div 4)
                                    + 3 / 2 * (sort (replicate 100 0) ! (3 * length (replicate 100 (0::real)) div 4)
                                                - sort (replicate 100 0) ! (length (replicate 100 (0::real)) div 4)) < y) ?xs)"
    by (rule single_column_outliers) simp
  also have "\<dots> = 34" by (simp add: s1)
  finally have a: "outliers (analyzeDataQuality B ?d) = 34" .
  have keys: "map fst (hd ?d) = [''v'']" by (simp add: table_def hd_append)
  have s2: "sort ?xs = ?xs"
    by (rule sorted_sort_id) (simp add: sorted_append)
  have "fullSetOutliers B ?d = countColumnOutliers B ?d 0 (detectColumn B ?d (length ?d) ''v'')"
    by (simp only: fullSetOutliers_def inferColumns_def keys countOutliers_sum list.map
          sum_list.Cons sum_list.Nil add_0_right)
  also have "\<dots> = length (filter (\<lambda>y. y < sort ?xs ! (length ?xs div 4)
                                    - 3 / 2 * (sort ?xs ! (3 * length ?xs div 4)
                                                - sort ?xs ! (length ?xs div 4))
                             \<or> sort ?xs ! (3 * length ?xs div 4)
                                    + 3 / 2 * (sort ?xs ! (3 * length ?xs div 4)
                                                - sort ?xs ! (length ?xs div 4)) < y) ?xs)"
    by (rule single_column_outliers) simp
  also have "\<dots> = 0"
    by (simp add: s2 nth_append)
  finally show ?thesis using a by simp
qed

text \<open>
  Claim C6, as stated: on 134 rows, 100 holding 0 followed by 34 holding 7, the outlier
  total of the code is not the total obtained with quartiles recomputed over the full
  record set. The sample of the first 100 rows gives the fences \<open>(0, 0)\<close> and 34
  outliers; the full set gives the quartiles 0 and 7, the fences \<open>(-10.5, 17.5)\<close> and
  no outlier.
\<close>

theorem outlier_total_counterexample:
  "outliers (analyzeDataQuality exampleBuiltins
      (table [''v''] (replicate 100 [0] @ replicate 34 [7])))
   \<noteq> fullSetOutliers exampleBuiltins (table [''v''] (replicate 100 [0] @ replicate 34 [7]))"
  using sample_versus_full_set [of exampleBuiltins] by simp

text \<open>
  Claim C6, amended. The outlier total is the sum, over the columns that type inference
  on the first 100 rows makes numeric, of the number of rows of the full dataset whose
  coerced cell is not \<open>NaN\<close> and lies outside the fences built from the first and third
  quartile of that same 100-row sample.
\<close>

theorem outlier_total_from_sample:
  "outliers (analyzeDataQuality B data)
   = (\<Sum>c\<leftarrow>detectColumnTypes B (take 100 data).
        case quartiles c of
          None \<Rightarrow> 0
        | Some (qa, qb, qc) \<Rightarrow>
            if type c = Numeric
            then length (filter (\<lambda>r. \<not> isNaN (Number B (cell r (name c)))
                     \<and> (jlt (Number B (cell r (name c))) (fst (fences (numOf qa) (numOf qc)))
                        \<or> jgt (Number B (cell r (name c))) (snd (fences (numOf qa) (numOf qc)))))
                   data)
            else 0)"
proof (cases "data = []")
  case True
  then show ?thesis by (simp add: analyzeDataQuality_def detectColumnTypes_def)
next
  case False
  then have "outliers (analyzeDataQuality B data)
             = (\<Sum>c\<leftarrow>detectColumnTypes B (take 100 data). countColumnOutliers B data 0 c)"
    using detectColumnTypes_take [of B data]
    by (simp add: analyzeDataQuality_def countOutliers_sum)
  then show ?thesis by (simp add: countColumnOutliers_eq)
qed

section \<open>Returned correlations and their order\<close>

lemma set_jsInsert: "set (jsInsert cmp x ys) = insert x (set ys)"
  by (induction ys) auto

lemma set_jsSort: "set (jsSort cmp xs) = set xs"
  by (induction xs) (simp_all add: jsSort_def set_jsInsert)

lemma jgt_jsub: "\<not> isNaN a \<Longrightarrow> \<not> isNaN b \<Longrightarrow> jgt (jsub b a) (Fin 0) = jlt a b"
  by (cases a; cases b) (simp_all add: jgt_def jsub_def)

lemma not_jlt_trans:
  "\<not> isNaN b \<Longrightarrow> \<not> jlt a b \<Longrightarrow> \<not> jlt b c \<Longrightarrow> \<not> jlt a c"
  by (cases a; cases b; cases c) simp_all

lemma jlt_asym: "jlt a b \<Longrightarrow> \<not> jlt b a"
  by (cases a; cases b) simp_all

lemma isNaN_jabs: "isNaN (jabs a) = isNaN a"
  by (cases a) simp_all

lemma sorted_jsInsert:
  assumes "sorted_wrt (\<lambda>a b. \<not> jlt (jabs (correlation a)) (jabs (correlation b))) ys"
    and "\<forall>y \<in> set (x # ys). \<not> isNaN (correlation y)"
  shows "sorted_wrt (\<lambda>a b. \<not> jlt (jabs (correlation a)) (jabs (correlation b)))
           (jsInsert byStrength x ys)"
  using assms
proof (induction ys)
  case Nil
  then show ?case by simp
next
  case (Cons y ys)
  have cmp: "jgt (byStrength x y) (Fin 0) = jlt (jabs (correlation x)) (jabs (correlation y))"
    using Cons.prems(2) by (simp add: byStrength_def jgt_jsub isNaN_jabs)
  show ?case
  proof (cases "jlt (jabs (correlation x)) (jabs (correlation y))")
    case True
    then have "\<not> jlt (jabs (correlation y)) (jabs (correlation x))" by (rule jlt_asym)
    moreover have "sorted_wrt (\<lambda>a b. \<not> jlt (jabs (correlation a)) (jabs (correlation b)))
                     (jsInsert byStrength x ys)"
      using Cons by simp
    ultimately show ?thesis using True Cons.prems(1) by (simp add: cmp set_jsInsert)
  next
    case False
    have "\<forall>z \<in> set ys. \<not> jlt (jabs (correlation x)) (jabs (correlation z))"
    proof
      fix z assume "z \<in> set ys"
      then have "\<not> jlt (jabs (correlation y)) (jabs (correlation z))"
        using Cons.prems(1) by simp
      moreover have "\<not> isNaN (jabs (correlation y))"
        using Cons.prems(2) by (simp add: isNaN_jabs)
      ultimately show "\<not> jlt (jabs (correlation x)) (jabs (correlation z))"
        using False not_jlt_trans by blast
    qed
    then show ?thesis using False Cons.prems(1) by (simp add: cmp)
  qed
qed

lemma sorted_jsSort:
  "\<forall>y \<in> set xs. \<not> isNaN (correlation y) \<Longrightarrow>
   sorted_wrt (\<lambda>a b. \<not> jlt (jabs (correlation a)) (jabs (correlation b))) (jsSort byStrength xs)"
proof (induction xs)
  case Nil
  then show ?case by (simp add: jsSort_def)
next
  case (Cons x xs)
  then have "sorted_wrt (\<lambda>a b. \<not> jlt (jabs (correlation a)) (jabs (correlation b)))
               (jsSort byStrength xs)" by simp
  moreover have "\<forall>y \<in> set (x # jsSort byStrength xs). \<not> isNaN (correlation y)"
    using Cons.prems by (simp add: set_jsSort)
  ultimately have "sorted_wrt (\<lambda>a b. \<not> jlt (jabs (correlation a)) (jabs (correlation b)))
               (jsInsert byStrength x (jsSort byStrength xs))"
    by (rule sorted_jsInsert)
  then show ?case by (simp add: jsSort_def)
qed

lemma isNaN_toFixed2: "isNaN (toFixed2 r) = isNaN r"
  by (cases r) simp_all

lemma jgt_not_NaN: "jgt (jabs r) b \<Longrightarrow> \<not> isNaN r"
  by (cases r; cases b) (simp_all add: jgt_def)

lemma correlatePair_Some:
  assumes "correlatePair B data col1 col2 = Some e"
  shows "columns e = [col1, col2]
       \<and> 5 \<le> length (pairsOf B data col1 col2)
       \<and> \<not> jeq (denominator (pairsOf B data col1 col2)) (Fin 0)
       \<and> jgt (jabs (pearson B data col1 col2)) (Fin 0.5)
       \<and> strength e = (if jgt (jabs (pearson B data col1 col2)) (Fin 0.8) then Strong else Moderate)
       \<and> direction e = (if jgt (pearson B data col1 col2) (Fin 0) then Positive else Negative)
       \<and> correlation e = toFixed2 (pearson B data col1 col2)"
  using assms by (auto simp: correlatePair_def pearson_def Let_def split: if_splits)

lemma innerLoop_member:
  "e \<in> set (innerLoop B data col1 cs acc) \<Longrightarrow>
   e \<in> set acc \<or> (\<exists>c \<in> set cs. correlatePair B data col1 (name c) = Some e)"
  by (induction cs arbitrary: acc) (fastforce split: option.splits)+

lemma outerLoop_member:
  "e \<in> set (outerLoop B data cs acc) \<Longrightarrow>
   e \<in> set acc \<or> (\<exists>c1 \<in> set cs. \<exists>c2 \<in> set cs. correlatePair B data (name c1) (name c2) = Some e)"
proof (induction cs arbitrary: acc)
  case Nil
  then show ?case by simp
next
  case (Cons c cs)
  from Cons.prems have "e \<in> set (outerLoop B data cs (innerLoop B data (name c) cs acc))" by simp
  from Cons.IH [OF this] show ?case
    using innerLoop_member [of e B data "name c" cs acc] by auto
qed

lemma findCorrelations_member:
  assumes "e \<in> set (findCorrelations B data cols)"
  shows "\<exists>c1 \<in> set cols. \<exists>c2 \<in> set cols. type c1 = Numeric \<and> type c2 = Numeric
          \<and> correlatePair B data (name c1) (name c2) = Some e"
proof -
  from assms have "e \<in> set (outerLoop B data (filter (\<lambda>col. type col = Numeric) cols) [])"
    by (simp add: findCorrelations_def Let_def set_jsSort split: if_splits)
  from outerLoop_member [OF this] show ?thesis by auto
qed

lemma findCorrelations_sorted:
  "sorted_wrt (\<lambda>a b. \<not> jlt (jabs (correlation a)) (jabs (correlation b)))
     (findCorrelations B data cols)"
proof (cases "data = []")
  case True
  then show ?thesis by (simp add: findCorrelations_def)
next
  case False
  let ?xs = "outerLoop B data (filter (\<lambda>col. type col = Numeric) cols) []"
  have "\<forall>y \<in> set ?xs. \<not> isNaN (correlation y)"
  proof
    fix y assume "y \<in> set ?xs"
    then have "y \<in> set (findCorrelations B data cols)"
      using False by (simp add: findCorrelations_def Let_def set_jsSort)
    from findCorrelations_member [OF this] obtain c1 c2 :: DataColumn
      where "correlatePair B data (name c1) (name c2) = Some y" by auto
    from correlatePair_Some [OF this] show "\<not> isNaN (correlation y)"
      using jgt_not_NaN [of "pearson B data (name c1) (name c2)" "Fin 0.5"]
      by (simp add: isNaN_toFixed2)
  qed
  then show ?thesis using False by (simp add: findCorrelations_def Let_def sorted_jsSort)
qed

lemma example_pairs:
  "pairsOf B (table [''a'', ''b'', ''c''] [[0, 2, 0], [2, 3, 0], [3, 2, 5], [4, 4, 5], [4, 6, 2]]) ''a'' ''b''
     = [(Fin 0, Fin 2), (Fin 2, Fin 3), (Fin 3, Fin 2), (Fin 4, Fin 4), (Fin 4, Fin 6)]"
  "pairsOf B (table [''a'', ''b'', ''c''] [[0, 2, 0], [2, 3, 0], [3, 2, 5], [4, 4, 5], [4, 6, 2]]) ''a'' ''c''
     = [(Fin 0, Fin 0), (Fin 2, Fin 0), (Fin 3, Fin 5), (Fin 4, Fin 5), (Fin 4, Fin 2)]"
  "pairsOf B (table [''a'', ''b'', ''c''] [[0, 2, 0], [2, 3, 0], [3, 2, 5], [4, 4, 5], [4, 6, 2]]) ''b'' ''c''
     = [(Fin 2, Fin 0), (Fin 3, Fin 0), (Fin 2, Fin 5), (Fin 4, Fin 5), (Fin 6, Fin 2)]"
  by (simp_all add: pairsOf_def table_def cell_def)

lemma example_roots: "sqrt 3136 = 56" "sqrt 7056 = 84"
  using real_sqrt_abs [of 56] real_sqrt_abs [of 84] by simp_all

lemma example_coefficients:
  "pearson B (table [''a'', ''b'', ''c''] [[0, 2, 0], [2, 3, 0], [3, 2, 5], [4, 4, 5], [4, 6, 2]]) ''a'' ''b''
     = Fin (39 / 56)"
  "pearson B (table [''a'', ''b'', ''c''] [[0, 2, 0], [2, 3, 0], [3, 2, 5], [4, 4, 5], [4, 6, 2]]) ''a'' ''c''
     = Fin (59 / 84)"
  "pearson B (table [''a'', ''b'', ''c''] [[0, 2, 0], [2, 3, 0], [3, 2, 5], [4, 4, 5], [4, 6, 2]]) ''b'' ''c''
     = Fin (1 / 14)"
  unfolding pearson_def example_pairs Let_def
  by (simp_all add: numerator_def denominator_def jsub_def example_roots)

lemma example_denominators:
  "denominator (pairsOf B (table [''a'', ''b'', ''c''] [[0, 2, 0], [2, 3, 0], [3, 2, 5], [4, 4, 5], [4, 6, 2]]) ''a'' ''b'') = Fin 56"
  "denominator (pairsOf B (table [''a'', ''b'', ''c''] [[0, 2, 0], [2, 3, 0], [3, 2, 5], [4, 4, 5], [4, 6, 2]]) ''a'' ''c'') = Fin 84"
  "denominator (pairsOf B (table [''a'', ''b'', ''c''] [[0, 2, 0], [2, 3, 0], [3, 2, 5], [4, 4, 5], [4, 6, 2]]) ''b'' ''c'') = Fin 84"
  unfolding example_pairs
  by (simp_all add: denominator_def jsub_def example_roots)

lemma correlatePair_pearson:
  "correlatePair B data col1 col2 =
     (if length (pairsOf B data col1 col2) < 5 then None
      else if jeq (denominator (pairsOf B data col1 col2)) (Fin 0) then None
      else if jgt (jabs (pearson B data col1 col2)) (Fin 0.5)
           then Some \<lparr>columns = [col1, col2],
                      correlation = toFixed2 (pearson B data col1 col2),
                      strength = (if jgt (jabs (pearson B data col1 col2)) (Fin 0.8)
                                  then Strong else Moderate),
                      direction = (if jgt (pearson B data col1 col2) (Fin 0)
                                   then Positive else Negative)\<rparr>
           else None)"
  by (simp add: correlatePair_def pearson_def Let_def)

lemma example_entries:
  "correlatePair B (table [''a'', ''b'', ''c''] [[0, 2, 0], [2, 3, 0], [3, 2, 5], [4, 4, 5], [4, 6, 2]]) ''a'' ''b'' = Some \<lparr>columns = [''a'', ''b''], correlation = Fin (7 / 10), strength = Moderate, direction = Positive\<rparr>"
  "correlatePair B (table [''a'', ''b'', ''c''] [[0, 2, 0], [2, 3, 0], [3, 2, 5], [4, 4, 5], [4, 6, 2]]) ''a'' ''c'' = Some \<lparr>columns = [''a'', ''c''], correlation = Fin (7 / 10), strength = Moderate, direction = Positive\<rparr>"
  "correlatePair B (table [''a'', ''b'', ''c''] [[0, 2, 0], [2, 3, 0], [3, 2, 5], [4, 4, 5], [4, 6, 2]]) ''b'' ''c'' = None"
  unfolding correlatePair_pearson example_coefficients example_denominators
  by (simp_all add: example_pairs jeq_def jgt_def)

lemma example_columns:
  "filter (\<lambda>col. type col = Numeric) (detectColumnTypes B (table [''a'', ''b'', ''c''] [[0, 2, 0], [2, 3, 0], [3, 2, 5], [4, 4, 5], [4, 6, 2]]))
   = map (detectColumn B (table [''a'', ''b'', ''c''] [[0, 2, 0], [2, 3, 0], [3, 2, 5], [4, 4, 5], [4, 6, 2]]) 5) [''a'', ''b'', ''c'']"
proof -
  have "detectColumnTypes B (table [''a'', ''b'', ''c''] [[0, 2, 0], [2, 3, 0], [3, 2, 5], [4, 4, 5], [4, 6, 2]]) = map (detectColumn B (table [''a'', ''b'', ''c''] [[0, 2, 0], [2, 3, 0], [3, 2, 5], [4, 4, 5], [4, 6, 2]]) (length (table [''a'', ''b'', ''c''] [[0, 2, 0], [2, 3, 0], [3, 2, 5], [4, 4, 5], [4, 6, 2]]))) (map fst (hd (table [''a'', ''b'', ''c''] [[0, 2, 0], [2, 3, 0], [3, 2, 5], [4, 4, 5], [4, 6, 2]])))"
    by (rule detectColumnTypes_small) (simp_all add: table_def)
  moreover have "length (table [''a'', ''b'', ''c''] [[0, 2, 0], [2, 3, 0], [3, 2, 5], [4, 4, 5], [4, 6, 2]]) = 5" "map fst (hd (table [''a'', ''b'', ''c''] [[0, 2, 0], [2, 3, 0], [3, 2, 5], [4, 4, 5], [4, 6, 2]])) = [''a'', ''b'', ''c'']"
    by (simp_all add: table_def)
  ultimately have cs: "detectColumnTypes B (table [''a'', ''b'', ''c''] [[0, 2, 0], [2, 3, 0], [3, 2, 5], [4, 4, 5], [4, 6, 2]]) = map (detectColumn B (table [''a'', ''b'', ''c''] [[0, 2, 0], [2, 3, 0], [3, 2, 5], [4, 4, 5], [4, 6, 2]]) 5) [''a'', ''b'', ''c'']"
    by simp
  have "columnType B 5 (columnValues (table [''a'', ''b'', ''c''] [[0, 2, 0], [2, 3, 0], [3, 2, 5], [4, 4, 5], [4, 6, 2]]) ''a'') = Numeric"
       "columnType B 5 (columnValues (table [''a'', ''b'', ''c''] [[0, 2, 0], [2, 3, 0], [3, 2, 5], [4, 4, 5], [4, 6, 2]]) ''b'') = Numeric"
       "columnType B 5 (columnValues (table [''a'', ''b'', ''c''] [[0, 2, 0], [2, 3, 0], [3, 2, 5], [4, 4, 5], [4, 6, 2]]) ''c'') = Numeric"
    by (simp_all add: columnValues_def table_def cell_def columnType_def)
  then show ?thesis by (simp add: cs detectColumn_type)
qed

lemma example_correlations:
  "findCorrelations B (table [''a'', ''b'', ''c''] [[0, 2, 0], [2, 3, 0], [3, 2, 5], [4, 4, 5], [4, 6, 2]]) (detectColumnTypes B (table [''a'', ''b'', ''c''] [[0, 2, 0], [2, 3, 0], [3, 2, 5], [4, 4, 5], [4, 6, 2]])) = [\<lparr>columns = [''a'', ''b''], correlation = Fin (7 / 10), strength = Moderate, direction = Positive\<rparr>, \<lparr>columns = [''a'', ''c''], correlation = Fin (7 / 10), strength = Moderate, direction = Positive\<rparr>]"
proof -
  have ne: "(table [''a'', ''b'', ''c''] [[0, 2, 0], [2, 3, 0], [3, 2, 5], [4, 4, 5], [4, 6, 2]]) \<noteq> []" by (simp add: table_def)
  have "outerLoop B (table [''a'', ''b'', ''c''] [[0, 2, 0], [2, 3, 0], [3, 2, 5], [4, 4, 5], [4, 6, 2]]) (map (detectColumn B (table [''a'', ''b'', ''c''] [[0, 2, 0], [2, 3, 0], [3, 2, 5], [4, 4, 5], [4, 6, 2]]) 5) [''a'', ''b'', ''c'']) [] = [\<lparr>columns = [''a'', ''b''], correlation = Fin (7 / 10), strength = Moderate, direction = Positive\<rparr>, \<lparr>columns = [''a'', ''c''], correlation = Fin (7 / 10), strength = Moderate, direction = Positive\<rparr>]"
    by (simp add: detectColumn_name example_entries)
  then show ?thesis
    using ne
    by (simp add: findCorrelations_def example_columns jsSort_def byStrength_def jsub_def jgt_def)
qed

text \<open>
  Claim C3, as stated: with columns a = 0, 2, 3, 4, 4, b = 2, 3, 2, 4, 6 and
  c = 0, 0, 5, 5, 2 the pair (a, b) has the coefficient \<open>39/56\<close> and the pair (a, c)
  the larger one \<open>59/84\<close>; both are stored as \<open>0.70\<close>, the comparator sees a tie and
  the stable sort keeps (a, b) first. The returned list is not descending by the
  absolute value of the coefficient.
\<close>

theorem ranking_counterexample:
  "\<not> descendingByCoefficient exampleBuiltins (table [''a'', ''b'', ''c''] [[0, 2, 0], [2, 3, 0], [3, 2, 5], [4, 4, 5], [4, 6, 2]])
       (findCorrelations exampleBuiltins (table [''a'', ''b'', ''c''] [[0, 2, 0], [2, 3, 0], [3, 2, 5], [4, 4, 5], [4, 6, 2]]) (detectColumnTypes exampleBuiltins (table [''a'', ''b'', ''c''] [[0, 2, 0], [2, 3, 0], [3, 2, 5], [4, 4, 5], [4, 6, 2]])))"
  by (simp add: example_correlations descendingByCoefficient_def coefficientOf_def
        example_coefficients)

lemma tie_breaks_only_on_different_keys:
  "jgt (byStrength x y) (Fin 0) \<Longrightarrow> jabs (correlation x) \<noteq> jabs (correlation y)"
  by (cases "jabs (correlation x)"; cases "jabs (correlation y)")
     (simp_all add: byStrength_def jgt_def jsub_def)

lemma filter_jsInsert:
  "filter (\<lambda>e. jabs (correlation e) = k) (jsInsert byStrength x ys)
   = filter (\<lambda>e. jabs (correlation e) = k) (x # ys)"
proof (induction ys)
  case Nil
  then show ?case by simp
next
  case (Cons y ys)
  show ?case
  proof (cases "jgt (byStrength x y) (Fin 0)")
    case True
    from tie_breaks_only_on_different_keys [OF True]
    have "\<not> (jabs (correlation x) = k \<and> jabs (correlation y) = k)" by auto
    then show ?thesis using True Cons.IH by auto
  next
    case False
    then show ?thesis by simp
  qed
qed

lemma filter_jsSort:
  "filter (\<lambda>e. jabs (correlation e) = k) (jsSort byStrength xs)
   = filter (\<lambda>e. jabs (correlation e) = k) xs"
proof (induction xs)
  case Nil
  then show ?case by (simp add: jsSort_def)
next
  case (Cons x xs)
  have "jsSort byStrength (x # xs) = jsInsert byStrength x (jsSort byStrength xs)"
    by (simp add: jsSort_def)
  then show ?case using Cons.IH by (simp add: filter_jsInsert)
qed

lemma map_filter_append:
  "List.map_filter f (xs @ ys) = List.map_filter f xs @ List.map_filter f ys"
  by (simp add: List.map_filter_def)

lemma map_filter_map_Pair:
  "List.map_filter f (map (Pair c) cs) = List.map_filter (\<lambda>d. f (c, d)) cs"
  by (simp add: List.map_filter_def filter_map comp_def)

lemma innerLoop_map_filter:
  "innerLoop B data col1 cs acc
   = acc @ List.map_filter (\<lambda>c. correlatePair B data col1 (name c)) cs"
  by (induction cs arbitrary: acc) (simp_all add: List.map_filter_simps split: option.splits)

lemma outerLoop_map_filter:
  "outerLoop B data cs acc
   = acc @ List.map_filter (\<lambda>(c1, c2). correlatePair B data (name c1) (name c2)) (columnPairs cs)"
  by (induction cs arbitrary: acc)
     (simp_all add: List.map_filter_simps innerLoop_map_filter map_filter_append map_filter_map_Pair)

lemma findCorrelations_stable:
  "filter (\<lambda>e. jabs (correlation e) = k) (findCorrelations B data cols)
   = filter (\<lambda>e. jabs (correlation e) = k)
       (List.map_filter (\<lambda>(c1, c2). correlatePair B data (name c1) (name c2))
          (columnPairs (filter (\<lambda>c. type c = Numeric) cols)))"
proof (cases "data = []")
  case True
  have "\<And>c1 c2. correlatePair B [] c1 c2 = None"
    by (rule correlatePair_few) simp
  then have "List.map_filter (\<lambda>(c1, c2). correlatePair B [] (name c1) (name c2))
          (columnPairs (filter (\<lambda>c. type c = Numeric) cols)) = []"
    by (simp add: List.map_filter_def split_def)
  then show ?thesis using True by (simp add: findCorrelations_def)
next
  case False
  then show ?thesis
    by (simp add: findCorrelations_def Let_def filter_jsSort outerLoop_map_filter)
qed

lemma correlatePair_explicit:
  assumes "correlatePair B data col1 col2 = Some e"
  shows "(let P = map (\<lambda>r. (Number B (cell r col1), Number B (cell r col2)))
                    (filter (\<lambda>r. cell r col1 \<noteq> JNull \<and> cell r col1 \<noteq> JUndefined \<and>
                                  cell r col2 \<noteq> JNull \<and> cell r col2 \<noteq> JUndefined) data);
              r = jdiv (numerator P) (denominator P)
          in columns e = [col1, col2]
             \<and> 5 \<le> length P
             \<and> \<not> jeq (denominator P) (Fin 0)
             \<and> jgt (jabs r) (Fin 0.5)
             \<and> strength e = (if jgt (jabs r) (Fin 0.8) then Strong else Moderate)
             \<and> direction e = (if jgt r (Fin 0) then Positive else Negative)
             \<and> correlation e = toFixed2 r)"
  using correlatePair_Some [OF assms]
  by (simp add: Let_def pearson_def pairsOf_def)

text \<open>
  Claim C3, amended. Every returned correlation belongs to a pair of numeric columns
  with at least five rows where both cells are other than \<^verbatim>\<open>null\<close> and \<^verbatim>\<open>undefined\<close>, a
  denominator that is not zero and a coefficient \<open>r\<close> with \<open>\<bar>r\<bar> > 0.5\<close>; its strength is
  strong when \<open>\<bar>r\<bar> > 0.8\<close> and moderate otherwise, its direction positive when \<open>r > 0\<close>
  and negative otherwise, and its \<^verbatim>\<open>correlation\<close> field is \<open>r\<close> rounded to two decimals.
  The returned list is descending by the absolute value of that rounded field, and the
  entries that share one such value stand in the order in which the nested loops
  produced them.
\<close>

theorem correlations_filtered_and_ranked:
  "(\<forall>e \<in> set (findCorrelations B data cols).
      \<exists>c1 \<in> set cols. \<exists>c2 \<in> set cols.
        type c1 = Numeric \<and> type c2 = Numeric
        \<and> (let P = map (\<lambda>r. (Number B (cell r (name c1)), Number B (cell r (name c2))))
                      (filter (\<lambda>r. cell r (name c1) \<noteq> JNull \<and> cell r (name c1) \<noteq> JUndefined \<and>
                                    cell r (name c2) \<noteq> JNull \<and> cell r (name c2) \<noteq> JUndefined)
                         data);
                r = jdiv (numerator P) (denominator P)
            in columns e = [name c1, name c2]
               \<and> 5 \<le> length P
               \<and> \<not> jeq (denominator P) (Fin 0)
               \<and> jgt (jabs r) (Fin 0.5)
               \<and> strength e = (if jgt (jabs r) (Fin 0.8) then Strong else Moderate)
               \<and> direction e = (if jgt r (Fin 0) then Positive else Negative)
               \<and> correlation e = toFixed2 r))
   \<and> sorted_wrt (\<lambda>a b. \<not> jlt (jabs (correlation a)) (jabs (correlation b)))
        (findCorrelations B data cols)
   \<and> (\<forall>k. filter (\<lambda>e. jabs (correlation e) = k) (findCorrelations B data cols)
          = filter (\<lambda>e. jabs (correlation e) = k)
              (List.map_filter (\<lambda>(c1, c2). correlatePair B data (name c1) (name c2))
                 (columnPairs (filter (\<lambda>c. type c = Numeric) cols))))"
proof (intro conjI ballI allI)
  fix e assume "e \<in> set (findCorrelations B data cols)"
  from findCorrelations_member [OF this] obtain c1 c2 :: DataColumn
    where c: "c1 \<in> set cols" "c2 \<in> set cols" "type c1 = Numeric" "type c2 = Numeric"
      and p: "correlatePair B data (name c1) (name c2) = Some e" by auto
  from correlatePair_explicit [OF p] c
  show "\<exists>c1 \<in> set cols. \<exists>c2 \<in> set cols.
        type c1 = Numeric \<and> type c2 = Numeric
        \<and> (let P = map (\<lambda>r. (Number B (cell r (name c1)), Number B (cell r (name c2))))
                      (filter (\<lambda>r. cell r (name c1) \<noteq> JNull \<and> cell r (name c1) \<noteq> JUndefined \<and>
                                    cell r (name c2) \<noteq> JNull \<and> cell r (name c2) \<noteq> JUndefined)
                         data);
                r = jdiv (numerator P) (denominator P)
            in columns e = [name c1, name c2]
               \<and> 5 \<le> length P
               \<and> \<not> jeq (denominator P) (Fin 0)
               \<and> jgt (jabs r) (Fin 0.5)
               \<and> strength e = (if jgt (jabs r) (Fin 0.8) then Strong else Moderate)
               \<and> direction e = (if jgt r (Fin 0) then Positive else Negative)
               \<and> correlation e = toFixed2 r)"
    by blast
next
  show "sorted_wrt (\<lambda>a b. \<not> jlt (jabs (correlation a)) (jabs (correlation b)))
        (findCorrelations B data cols)"
    by (rule findCorrelations_sorted)
next
  fix k
  show "filter (\<lambda>e. jabs (correlation e) = k) (findCorrelations B data cols)
          = filter (\<lambda>e. jabs (correlation e) = k)
              (List.map_filter (\<lambda>(c1, c2). correlatePair B data (name c1) (name c2))
                 (columnPairs (filter (\<lambda>c. type c = Numeric) cols)))"
    by (rule findCorrelations_stable)
qed

lemma null_row_pairs:
  "pairsOf B [[(''a'', JNum (Fin 0)), (''b'', JNum (Fin 2)), (''c'', JNum (Fin 0))],
        [(''a'', JNum (Fin 2)), (''b'', JNum (Fin 3)), (''c'', JNum (Fin 0))],
        [(''a'', JNum (Fin 3)), (''b'', JNum (Fin 2)), (''c'', JNum (Fin 5))],
        [(''a'', JNum (Fin 4)), (''b'', JNum (Fin 4)), (''c'', JNum (Fin 5))],
        [(''a'', JNum (Fin 4)), (''b'', JNum (Fin 6)), (''c'', JNum (Fin 2))],
        [(''a'', JNull), (''b'', JNull), (''c'', JNum (Fin 7))]] ''a'' ''b'' = pairsOf B (table [''a'', ''b'', ''c''] [[0, 2, 0], [2, 3, 0], [3, 2, 5], [4, 4, 5], [4, 6, 2]]) ''a'' ''b''"
  "pairsOf B [[(''a'', JNum (Fin 0)), (''b'', JNum (Fin 2)), (''c'', JNum (Fin 0))],
        [(''a'', JNum (Fin 2)), (''b'', JNum (Fin 3)), (''c'', JNum (Fin 0))],
        [(''a'', JNum (Fin 3)), (''b'', JNum (Fin 2)), (''c'', JNum (Fin 5))],
        [(''a'', JNum (Fin 4)), (''b'', JNum (Fin 4)), (''c'', JNum (Fin 5))],
        [(''a'', JNum (Fin 4)), (''b'', JNum (Fin 6)), (''c'', JNum (Fin 2))],
        [(''a'', JNull), (''b'', JNull), (''c'', JNum (Fin 7))]] ''a'' ''c'' = pairsOf B (table [''a'', ''b'', ''c''] [[0, 2, 0], [2, 3, 0], [3, 2, 5], [4, 4, 5], [4, 6, 2]]) ''a'' ''c''"
  "pairsOf B [[(''a'', JNum (Fin 0)), (''b'', JNum (Fin 2)), (''c'', JNum (Fin 0))],
        [(''a'', JNum (Fin 2)), (''b'', JNum (Fin 3)), (''c'', JNum (Fin 0))],
        [(''a'', JNum (Fin 3)), (''b'', JNum (Fin 2)), (''c'', JNum (Fin 5))],
        [(''a'', JNum (Fin 4)), (''b'', JNum (Fin 4)), (''c'', JNum (Fin 5))],
        [(''a'', JNum (Fin 4)), (''b'', JNum (Fin 6)), (''c'', JNum (Fin 2))],
        [(''a'', JNull), (''b'', JNull), (''c'', JNum (Fin 7))]] ''b'' ''c'' = pairsOf B (table [''a'', ''b'', ''c''] [[0, 2, 0], [2, 3, 0], [3, 2, 5], [4, 4, 5], [4, 6, 2]]) ''b'' ''c''"
  unfolding example_pairs by (simp_all add: pairsOf_def cell_def)

lemma null_row_entries:
  "correlatePair B [[(''a'', JNum (Fin 0)), (''b'', JNum (Fin 2)), (''c'', JNum (Fin 0))],
        [(''a'', JNum (Fin 2)), (''b'', JNum (Fin 3)), (''c'', JNum (Fin 0))],
        [(''a'', JNum (Fin 3)), (''b'', JNum (Fin 2)), (''c'', JNum (Fin 5))],
        [(''a'', JNum (Fin 4)), (''b'', JNum (Fin 4)), (''c'', JNum (Fin 5))],
        [(''a'', JNum (Fin 4)), (''b'', JNum (Fin 6)), (''c'', JNum (Fin 2))],
        [(''a'', JNull), (''b'', JNull), (''c'', JNum (Fin 7))]] ''a'' ''b'' = Some \<lparr>columns = [''a'', ''b''], correlation = Fin (7 / 10), strength = Moderate, direction = Positive\<rparr>"
  "correlatePair B [[(''a'', JNum (Fin 0)), (''b'', JNum (Fin 2)), (''c'', JNum (Fin 0))],
        [(''a'', JNum (Fin 2)), (''b'', JNum (Fin 3)), (''c'', JNum (Fin 0))],
        [(''a'', JNum (Fin 3)), (''b'', JNum (Fin 2)), (''c'', JNum (Fin 5))],
        [(''a'', JNum (Fin 4)), (''b'', JNum (Fin 4)), (''c'', JNum (Fin 5))],
        [(''a'', JNum (Fin 4)), (''b'', JNum (Fin 6)), (''c'', JNum (Fin 2))],
        [(''a'', JNull), (''b'', JNull), (''c'', JNum (Fin 7))]] ''a'' ''c'' = Some \<lparr>columns = [''a'', ''c''], correlation = Fin (7 / 10), strength = Moderate, direction = Positive\<rparr>"
  "correlatePair B [[(''a'', JNum (Fin 0)), (''b'', JNum (Fin 2)), (''c'', JNum (Fin 0))],
        [(''a'', JNum (Fin 2)), (''b'', JNum (Fin 3)), (''c'', JNum (Fin 0))],
        [(''a'', JNum (Fin 3)), (''b'', JNum (Fin 2)), (''c'', JNum (Fin 5))],
        [(''a'', JNum (Fin 4)), (''b'', JNum (Fin 4)), (''c'', JNum (Fin 5))],
        [(''a'', JNum (Fin 4)), (''b'', JNum (Fin 6)), (''c'', JNum (Fin 2))],
        [(''a'', JNull), (''b'', JNull), (''c'', JNum (Fin 7))]] ''b'' ''c'' = None"
  using example_entries [of B]
  by (simp_all only: correlatePair_def null_row_pairs)

lemma null_row_columns:
  "filter (\<lambda>col. type col = Numeric) (detectColumnTypes B [[(''a'', JNum (Fin 0)), (''b'', JNum (Fin 2)), (''c'', JNum (Fin 0))],
        [(''a'', JNum (Fin 2)), (''b'', JNum (Fin 3)), (''c'', JNum (Fin 0))],
        [(''a'', JNum (Fin 3)), (''b'', JNum (Fin 2)), (''c'', JNum (Fin 5))],
        [(''a'', JNum (Fin 4)), (''b'', JNum (Fin 4)), (''c'', JNum (Fin 5))],
        [(''a'', JNum (Fin 4)), (''b'', JNum (Fin 6)), (''c'', JNum (Fin 2))],
        [(''a'', JNull), (''b'', JNull), (''c'', JNum (Fin 7))]])
   = map (detectColumn B [[(''a'', JNum (Fin 0)), (''b'', JNum (Fin 2)), (''c'', JNum (Fin 0))],
        [(''a'', JNum (Fin 2)), (''b'', JNum (Fin 3)), (''c'', JNum (Fin 0))],
        [(''a'', JNum (Fin 3)), (''b'', JNum (Fin 2)), (''c'', JNum (Fin 5))],
        [(''a'', JNum (Fin 4)), (''b'', JNum (Fin 4)), (''c'', JNum (Fin 5))],
        [(''a'', JNum (Fin 4)), (''b'', JNum (Fin 6)), (''c'', JNum (Fin 2))],
        [(''a'', JNull), (''b'', JNull), (''c'', JNum (Fin 7))]] 6) [''a'', ''b'', ''c'']"
proof -
  have "detectColumnTypes B [[(''a'', JNum (Fin 0)), (''b'', JNum (Fin 2)), (''c'', JNum (Fin 0))],
        [(''a'', JNum (Fin 2)), (''b'', JNum (Fin 3)), (''c'', JNum (Fin 0))],
        [(''a'', JNum (Fin 3)), (''b'', JNum (Fin 2)), (''c'', JNum (Fin 5))],
        [(''a'', JNum (Fin 4)), (''b'', JNum (Fin 4)), (''c'', JNum (Fin 5))],
        [(''a'', JNum (Fin 4)), (''b'', JNum (Fin 6)), (''c'', JNum (Fin 2))],
        [(''a'', JNull), (''b'', JNull), (''c'', JNum (Fin 7))]] = map (detectColumn B [[(''a'', JNum (Fin 0)), (''b'', JNum (Fin 2)), (''c'', JNum (Fin 0))],
        [(''a'', JNum (Fin 2)), (''b'', JNum (Fin 3)), (''c'', JNum (Fin 0))],
        [(''a'', JNum (Fin 3)), (''b'', JNum (Fin 2)), (''c'', JNum (Fin 5))],
        [(''a'', JNum (Fin 4)), (''b'', JNum (Fin 4)), (''c'', JNum (Fin 5))],
        [(''a'', JNum (Fin 4)), (''b'', JNum (Fin 6)), (''c'', JNum (Fin 2))],
        [(''a'', JNull), (''b'', JNull), (''c'', JNum (Fin 7))]] (length [[(''a'', JNum (Fin 0)), (''b'', JNum (Fin 2)), (''c'', JNum (Fin 0))],
        [(''a'', JNum (Fin 2)), (''b'', JNum (Fin 3)), (''c'', JNum (Fin 0))],
        [(''a'', JNum (Fin 3)), (''b'', JNum (Fin 2)), (''c'', JNum (Fin 5))],
        [(''a'', JNum (Fin 4)), (''b'', JNum (Fin 4)), (''c'', JNum (Fin 5))],
        [(''a'', JNum (Fin 4)), (''b'', JNum (Fin 6)), (''c'', JNum (Fin 2))],
        [(''a'', JNull), (''b'', JNull), (''c'', JNum (Fin 7))]])) (map fst (hd [[(''a'', JNum (Fin 0)), (''b'', JNum (Fin 2)), (''c'', JNum (Fin 0))],
        [(''a'', JNum (Fin 2)), (''b'', JNum (Fin 3)), (''c'', JNum (Fin 0))],
        [(''a'', JNum (Fin 3)), (''b'', JNum (Fin 2)), (''c'', JNum (Fin 5))],
        [(''a'', JNum (Fin 4)), (''b'', JNum (Fin 4)), (''c'', JNum (Fin 5))],
        [(''a'', JNum (Fin 4)), (''b'', JNum (Fin 6)), (''c'', JNum (Fin 2))],
        [(''a'', JNull), (''b'', JNull), (''c'', JNum (Fin 7))]]))"
    by (rule detectColumnTypes_small) simp_all
  moreover have len: "length [[(''a'', JNum (Fin 0)), (''b'', JNum (Fin 2)), (''c'', JNum (Fin 0))],
        [(''a'', JNum (Fin 2)), (''b'', JNum (Fin 3)), (''c'', JNum (Fin 0))],
        [(''a'', JNum (Fin 3)), (''b'', JNum (Fin 2)), (''c'', JNum (Fin 5))],
        [(''a'', JNum (Fin 4)), (''b'', JNum (Fin 4)), (''c'', JNum (Fin 5))],
        [(''a'', JNum (Fin 4)), (''b'', JNum (Fin 6)), (''c'', JNum (Fin 2))],
        [(''a'', JNull), (''b'', JNull), (''c'', JNum (Fin 7))]] = 6"
    and keys: "map fst (hd [[(''a'', JNum (Fin 0)), (''b'', JNum (Fin 2)), (''c'', JNum (Fin 0))],
        [(''a'', JNum (Fin 2)), (''b'', JNum (Fin 3)), (''c'', JNum (Fin 0))],
        [(''a'', JNum (Fin 3)), (''b'', JNum (Fin 2)), (''c'', JNum (Fin 5))],
        [(''a'', JNum (Fin 4)), (''b'', JNum (Fin 4)), (''c'', JNum (Fin 5))],
        [(''a'', JNum (Fin 4)), (''b'', JNum (Fin 6)), (''c'', JNum (Fin 2))],
        [(''a'', JNull), (''b'', JNull), (''c'', JNum (Fin 7))]]) = [''a'', ''b'', ''c'']"
    by simp_all
  ultimately have cs: "detectColumnTypes B [[(''a'', JNum (Fin 0)), (''b'', JNum (Fin 2)), (''c'', JNum (Fin 0))],
        [(''a'', JNum (Fin 2)), (''b'', JNum (Fin 3)), (''c'', JNum (Fin 0))],
        [(''a'', JNum (Fin 3)), (''b'', JNum (Fin 2)), (''c'', JNum (Fin 5))],
        [(''a'', JNum (Fin 4)), (''b'', JNum (Fin 4)), (''c'', JNum (Fin 5))],
        [(''a'', JNum (Fin 4)), (''b'', JNum (Fin 6)), (''c'', JNum (Fin 2))],
        [(''a'', JNull), (''b'', JNull), (''c'', JNum (Fin 7))]] = map (detectColumn B [[(''a'', JNum (Fin 0)), (''b'', JNum (Fin 2)), (''c'', JNum (Fin 0))],
        [(''a'', JNum (Fin 2)), (''b'', JNum (Fin 3)), (''c'', JNum (Fin 0))],
        [(''a'', JNum (Fin 3)), (''b'', JNum (Fin 2)), (''c'', JNum (Fin 5))],
        [(''a'', JNum (Fin 4)), (''b'', JNum (Fin 4)), (''c'', JNum (Fin 5))],
        [(''a'', JNum (Fin 4)), (''b'', JNum (Fin 6)), (''c'', JNum (Fin 2))],
        [(''a'', JNull), (''b'', JNull), (''c'', JNum (Fin 7))]] 6) [''a'', ''b'', ''c'']"
    by (simp only: len keys)
  have "columnType B 6 (columnValues [[(''a'', JNum (Fin 0)), (''b'', JNum (Fin 2)), (''c'', JNum (Fin 0))],
        [(''a'', JNum (Fin 2)), (''b'', JNum (Fin 3)), (''c'', JNum (Fin 0))],
        [(''a'', JNum (Fin 3)), (''b'', JNum (Fin 2)), (''c'', JNum (Fin 5))],
        [(''a'', JNum (Fin 4)), (''b'', JNum (Fin 4)), (''c'', JNum (Fin 5))],
        [(''a'', JNum (Fin 4)), (''b'', JNum (Fin 6)), (''c'', JNum (Fin 2))],
        [(''a'', JNull), (''b'', JNull), (''c'', JNum (Fin 7))]] ''a'') = Numeric"
       "columnType B 6 (columnValues [[(''a'', JNum (Fin 0)), (''b'', JNum (Fin 2)), (''c'', JNum (Fin 0))],
        [(''a'', JNum (Fin 2)), (''b'', JNum (Fin 3)), (''c'', JNum (Fin 0))],
        [(''a'', JNum (Fin 3)), (''b'', JNum (Fin 2)), (''c'', JNum (Fin 5))],
        [(''a'', JNum (Fin 4)), (''b'', JNum (Fin 4)), (''c'', JNum (Fin 5))],
        [(''a'', JNum (Fin 4)), (''b'', JNum (Fin 6)), (''c'', JNum (Fin 2))],
        [(''a'', JNull), (''b'', JNull), (''c'', JNum (Fin 7))]] ''b'') = Numeric"
       "columnType B 6 (columnValues [[(''a'', JNum (Fin 0)), (''b'', JNum (Fin 2)), (''c'', JNum (Fin 0))],
        [(''a'', JNum (Fin 2)), (''b'', JNum (Fin 3)), (''c'', JNum (Fin 0))],
        [(''a'', JNum (Fin 3)), (''b'', JNum (Fin 2)), (''c'', JNum (Fin 5))],
        [(''a'', JNum (Fin 4)), (''b'', JNum (Fin 4)), (''c'', JNum (Fin 5))],
        [(''a'', JNum (Fin 4)), (''b'', JNum (Fin 6)), (''c'', JNum (Fin 2))],
        [(''a'', JNull), (''b'', JNull), (''c'', JNum (Fin 7))]] ''c'') = Numeric"
    by (simp_all add: columnValues_def cell_def columnType_def)
  then show ?thesis by (simp add: cs detectColumn_type)
qed

lemma null_row_correlations:
  "findCorrelations B [[(''a'', JNum (Fin 0)), (''b'', JNum (Fin 2)), (''c'', JNum (Fin 0))],
        [(''a'', JNum (Fin 2)), (''b'', JNum (Fin 3)), (''c'', JNum (Fin 0))],
        [(''a'', JNum (Fin 3)), (''b'', JNum (Fin 2)), (''c'', JNum (Fin 5))],
        [(''a'', JNum (Fin 4)), (''b'', JNum (Fin 4)), (''c'', JNum (Fin 5))],
        [(''a'', JNum (Fin 4)), (''b'', JNum (Fin 6)), (''c'', JNum (Fin 2))],
        [(''a'', JNull), (''b'', JNull), (''c'', JNum (Fin 7))]] (detectColumnTypes B [[(''a'', JNum (Fin 0)), (''b'', JNum (Fin 2)), (''c'', JNum (Fin 0))],
        [(''a'', JNum (Fin 2)), (''b'', JNum (Fin 3)), (''c'', JNum (Fin 0))],
        [(''a'', JNum (Fin 3)), (''b'', JNum (Fin 2)), (''c'', JNum (Fin 5))],
        [(''a'', JNum (Fin 4)), (''b'', JNum (Fin 4)), (''c'', JNum (Fin 5))],
        [(''a'', JNum (Fin 4)), (''b'', JNum (Fin 6)), (''c'', JNum (Fin 2))],
        [(''a'', JNull), (''b'', JNull), (''c'', JNum (Fin 7))]]) = [\<lparr>columns = [''a'', ''b''], correlation = Fin (7 / 10), strength = Moderate, direction = Positive\<rparr>, \<lparr>columns = [''a'', ''c''], correlation = Fin (7 / 10), strength = Moderate, direction = Positive\<rparr>]"
proof -
  have "outerLoop B [[(''a'', JNum (Fin 0)), (''b'', JNum (Fin 2)), (''c'', JNum (Fin 0))],
        [(''a'', JNum (Fin 2)), (''b'', JNum (Fin 3)), (''c'', JNum (Fin 0))],
        [(''a'', JNum (Fin 3)), (''b'', JNum (Fin 2)), (''c'', JNum (Fin 5))],
        [(''a'', JNum (Fin 4)), (''b'', JNum (Fin 4)), (''c'', JNum (Fin 5))],
        [(''a'', JNum (Fin 4)), (''b'', JNum (Fin 6)), (''c'', JNum (Fin 2))],
        [(''a'', JNull), (''b'', JNull), (''c'', JNum (Fin 7))]] (map (detectColumn B [[(''a'', JNum (Fin 0)), (''b'', JNum (Fin 2)), (''c'', JNum (Fin 0))],
        [(''a'', JNum (Fin 2)), (''b'', JNum (Fin 3)), (''c'', JNum (Fin 0))],
        [(''a'', JNum (Fin 3)), (''b'', JNum (Fin 2)), (''c'', JNum (Fin 5))],
        [(''a'', JNum (Fin 4)), (''b'', JNum (Fin 4)), (''c'', JNum (Fin 5))],
        [(''a'', JNum (Fin 4)), (''b'', JNum (Fin 6)), (''c'', JNum (Fin 2))],
        [(''a'', JNull), (''b'', JNull), (''c'', JNum (Fin 7))]] 6) [''a'', ''b'', ''c'']) [] = [\<lparr>columns = [''a'', ''b''], correlation = Fin (7 / 10), strength = Moderate, direction = Positive\<rparr>, \<lparr>columns = [''a'', ''c''], correlation = Fin (7 / 10), strength = Moderate, direction = Positive\<rparr>]"
    by (simp add: detectColumn_name null_row_entries)
  then show ?thesis
    by (simp add: findCorrelations_def null_row_columns jsSort_def byStrength_def jsub_def jgt_def)
qed

theorem correlations_filtered_and_ranked_witness:
  "\<lparr>columns = [''a'', ''b''], correlation = Fin (7 / 10), strength = Moderate, direction = Positive\<rparr> \<in> set (findCorrelations exampleBuiltins [[(''a'', JNum (Fin 0)), (''b'', JNum (Fin 2)), (''c'', JNum (Fin 0))],
        [(''a'', JNum (Fin 2)), (''b'', JNum (Fin 3)), (''c'', JNum (Fin 0))],
        [(''a'', JNum (Fin 3)), (''b'', JNum (Fin 2)), (''c'', JNum (Fin 5))],
        [(''a'', JNum (Fin 4)), (''b'', JNum (Fin 4)), (''c'', JNum (Fin 5))],
        [(''a'', JNum (Fin 4)), (''b'', JNum (Fin 6)), (''c'', JNum (Fin 2))],
        [(''a'', JNull), (''b'', JNull), (''c'', JNum (Fin 7))]] (detectColumnTypes exampleBuiltins [[(''a'', JNum (Fin 0)), (''b'', JNum (Fin 2)), (''c'', JNum (Fin 0))],
        [(''a'', JNum (Fin 2)), (''b'', JNum (Fin 3)), (''c'', JNum (Fin 0))],
        [(''a'', JNum (Fin 3)), (''b'', JNum (Fin 2)), (''c'', JNum (Fin 5))],
        [(''a'', JNum (Fin 4)), (''b'', JNum (Fin 4)), (''c'', JNum (Fin 5))],
        [(''a'', JNum (Fin 4)), (''b'', JNum (Fin 6)), (''c'', JNum (Fin 2))],
        [(''a'', JNull), (''b'', JNull), (''c'', JNum (Fin 7))]]))
   \<and> (map (\<lambda>r. (Number exampleBuiltins (cell r ''a''), Number exampleBuiltins (cell r ''b'')))
          (filter (\<lambda>r. cell r ''a'' \<noteq> JNull \<and> cell r ''a'' \<noteq> JUndefined \<and>
                        cell r ''b'' \<noteq> JNull \<and> cell r ''b'' \<noteq> JUndefined)
             [[(''a'', JNum (Fin 0)), (''b'', JNum (Fin 2)), (''c'', JNum (Fin 0))],
        [(''a'', JNum (Fin 2)), (''b'', JNum (Fin 3)), (''c'', JNum (Fin 0))],
        [(''a'', JNum (Fin 3)), (''b'', JNum (Fin 2)), (''c'', JNum (Fin 5))],
        [(''a'', JNum (Fin 4)), (''b'', JNum (Fin 4)), (''c'', JNum (Fin 5))],
        [(''a'', JNum (Fin 4)), (''b'', JNum (Fin 6)), (''c'', JNum (Fin 2))],
        [(''a'', JNull), (''b'', JNull), (''c'', JNum (Fin 7))]])) = [(Fin 0, Fin 2), (Fin 2, Fin 3), (Fin 3, Fin 2), (Fin 4, Fin 4), (Fin 4, Fin 6)]
   \<and> 5 \<le> length (map (\<lambda>r. (Number exampleBuiltins (cell r ''a''), Number exampleBuiltins (cell r ''b'')))
          (filter (\<lambda>r. cell r ''a'' \<noteq> JNull \<and> cell r ''a'' \<noteq> JUndefined \<and>
                        cell r ''b'' \<noteq> JNull \<and> cell r ''b'' \<noteq> JUndefined)
             [[(''a'', JNum (Fin 0)), (''b'', JNum (Fin 2)), (''c'', JNum (Fin 0))],
        [(''a'', JNum (Fin 2)), (''b'', JNum (Fin 3)), (''c'', JNum (Fin 0))],
        [(''a'', JNum (Fin 3)), (''b'', JNum (Fin 2)), (''c'', JNum (Fin 5))],
        [(''a'', JNum (Fin 4)), (''b'', JNum (Fin 4)), (''c'', JNum (Fin 5))],
        [(''a'', JNum (Fin 4)), (''b'', JNum (Fin 6)), (''c'', JNum (Fin 2))],
        [(''a'', JNull), (''b'', JNull), (''c'', JNum (Fin 7))]]))
   \<and> jgt (jabs (jdiv (numerator (map (\<lambda>r. (Number exampleBuiltins (cell r ''a''), Number exampleBuiltins (cell r ''b'')))
          (filter (\<lambda>r. cell r ''a'' \<noteq> JNull \<and> cell r ''a'' \<noteq> JUndefined \<and>
                        cell r ''b'' \<noteq> JNull \<and> cell r ''b'' \<noteq> JUndefined)
             [[(''a'', JNum (Fin 0)), (''b'', JNum (Fin 2)), (''c'', JNum (Fin 0))],
        [(''a'', JNum (Fin 2)), (''b'', JNum (Fin 3)), (''c'', JNum (Fin 0))],
        [(''a'', JNum (Fin 3)), (''b'', JNum (Fin 2)), (''c'', JNum (Fin 5))],
        [(''a'', JNum (Fin 4)), (''b'', JNum (Fin 4)), (''c'', JNum (Fin 5))],
        [(''a'', JNum (Fin 4)), (''b'', JNum (Fin 6)), (''c'', JNum (Fin 2))],
        [(''a'', JNull), (''b'', JNull), (''c'', JNum (Fin 7))]]))) (denominator (map (\<lambda>r. (Number exampleBuiltins (cell r ''a''), Number exampleBuiltins (cell r ''b'')))
          (filter (\<lambda>r. cell r ''a'' \<noteq> JNull \<and> cell r ''a'' \<noteq> JUndefined \<and>
                        cell r ''b'' \<noteq> JNull \<and> cell r ''b'' \<noteq> JUndefined)
             [[(''a'', JNum (Fin 0)), (''b'', JNum (Fin 2)), (''c'', JNum (Fin 0))],
        [(''a'', JNum (Fin 2)), (''b'', JNum (Fin 3)), (''c'', JNum (Fin 0))],
        [(''a'', JNum (Fin 3)), (''b'', JNum (Fin 2)), (''c'', JNum (Fin 5))],
        [(''a'', JNum (Fin 4)), (''b'', JNum (Fin 4)), (''c'', JNum (Fin 5))],
        [(''a'', JNum (Fin 4)), (''b'', JNum (Fin 6)), (''c'', JNum (Fin 2))],
        [(''a'', JNull), (''b'', JNull), (''c'', JNum (Fin 7))]]))))) (Fin 0.5)
   \<and> correlation \<lparr>columns = [''a'', ''b''], correlation = Fin (7 / 10), strength = Moderate, direction = Positive\<rparr> = toFixed2 (jdiv (numerator (map (\<lambda>r. (Number exampleBuiltins (cell r ''a''), Number exampleBuiltins (cell r ''b'')))
          (filter (\<lambda>r. cell r ''a'' \<noteq> JNull \<and> cell r ''a'' \<noteq> JUndefined \<and>
                        cell r ''b'' \<noteq> JNull \<and> cell r ''b'' \<noteq> JUndefined)
             [[(''a'', JNum (Fin 0)), (''b'', JNum (Fin 2)), (''c'', JNum (Fin 0))],
        [(''a'', JNum (Fin 2)), (''b'', JNum (Fin 3)), (''c'', JNum (Fin 0))],
        [(''a'', JNum (Fin 3)), (''b'', JNum (Fin 2)), (''c'', JNum (Fin 5))],
        [(''a'', JNum (Fin 4)), (''b'', JNum (Fin 4)), (''c'', JNum (Fin 5))],
        [(''a'', JNum (Fin 4)), (''b'', JNum (Fin 6)), (''c'', JNum (Fin 2))],
        [(''a'', JNull), (''b'', JNull), (''c'', JNum (Fin 7))]]))) (denominator (map (\<lambda>r. (Number exampleBuiltins (cell r ''a''), Number exampleBuiltins (cell r ''b'')))
          (filter (\<lambda>r. cell r ''a'' \<noteq> JNull \<and> cell r ''a'' \<noteq> JUndefined \<and>
                        cell r ''b'' \<noteq> JNull \<and> cell r ''b'' \<noteq> JUndefined)
             [[(''a'', JNum (Fin 0)), (''b'', JNum (Fin 2)), (''c'', JNum (Fin 0))],
        [(''a'', JNum (Fin 2)), (''b'', JNum (Fin 3)), (''c'', JNum (Fin 0))],
        [(''a'', JNum (Fin 3)), (''b'', JNum (Fin 2)), (''c'', JNum (Fin 5))],
        [(''a'', JNum (Fin 4)), (''b'', JNum (Fin 4)), (''c'', JNum (Fin 5))],
        [(''a'', JNum (Fin 4)), (''b'', JNum (Fin 6)), (''c'', JNum (Fin 2))],
        [(''a'', JNull), (''b'', JNull), (''c'', JNum (Fin 7))]]))))
   \<and> sorted_wrt (\<lambda>a b. \<not> jlt (jabs (correlation a)) (jabs (correlation b)))
        (findCorrelations exampleBuiltins [[(''a'', JNum (Fin 0)), (''b'', JNum (Fin 2)), (''c'', JNum (Fin 0))],
        [(''a'', JNum (Fin 2)), (''b'', JNum (Fin 3)), (''c'', JNum (Fin 0))],
        [(''a'', JNum (Fin 3)), (''b'', JNum (Fin 2)), (''c'', JNum (Fin 5))],
        [(''a'', JNum (Fin 4)), (''b'', JNum (Fin 4)), (''c'', JNum (Fin 5))],
        [(''a'', JNum (Fin 4)), (''b'', JNum (Fin 6)), (''c'', JNum (Fin 2))],
        [(''a'', JNull), (''b'', JNull), (''c'', JNum (Fin 7))]] (detectColumnTypes exampleBuiltins [[(''a'', JNum (Fin 0)), (''b'', JNum (Fin 2)), (''c'', JNum (Fin 0))],
        [(''a'', JNum (Fin 2)), (''b'', JNum (Fin 3)), (''c'', JNum (Fin 0))],
        [(''a'', JNum (Fin 3)), (''b'', JNum (Fin 2)), (''c'', JNum (Fin 5))],
        [(''a'', JNum (Fin 4)), (''b'', JNum (Fin 4)), (''c'', JNum (Fin 5))],
        [(''a'', JNum (Fin 4)), (''b'', JNum (Fin 6)), (''c'', JNum (Fin 2))],
        [(''a'', JNull), (''b'', JNull), (''c'', JNum (Fin 7))]]))
   \<and> filter (\<lambda>e. jabs (correlation e) = Fin (7 / 10))
        (findCorrelations exampleBuiltins [[(''a'', JNum (Fin 0)), (''b'', JNum (Fin 2)), (''c'', JNum (Fin 0))],
        [(''a'', JNum (Fin 2)), (''b'', JNum (Fin 3)), (''c'', JNum (Fin 0))],
        [(''a'', JNum (Fin 3)), (''b'', JNum (Fin 2)), (''c'', JNum (Fin 5))],
        [(''a'', JNum (Fin 4)), (''b'', JNum (Fin 4)), (''c'', JNum (Fin 5))],
        [(''a'', JNum (Fin 4)), (''b'', JNum (Fin 6)), (''c'', JNum (Fin 2))],
        [(''a'', JNull), (''b'', JNull), (''c'', JNum (Fin 7))]] (detectColumnTypes exampleBuiltins [[(''a'', JNum (Fin 0)), (''b'', JNum (Fin 2)), (''c'', JNum (Fin 0))],
        [(''a'', JNum (Fin 2)), (''b'', JNum (Fin 3)), (''c'', JNum (Fin 0))],
        [(''a'', JNum (Fin 3)), (''b'', JNum (Fin 2)), (''c'', JNum (Fin 5))],
        [(''a'', JNum (Fin 4)), (''b'', JNum (Fin 4)), (''c'', JNum (Fin 5))],
        [(''a'', JNum (Fin 4)), (''b'', JNum (Fin 6)), (''c'', JNum (Fin 2))],
        [(''a'', JNull), (''b'', JNull), (''c'', JNum (Fin 7))]]))
     = [\<lparr>columns = [''a'', ''b''], correlation = Fin (7 / 10), strength = Moderate, direction = Positive\<rparr>, \<lparr>columns = [''a'', ''c''], correlation = Fin (7 / 10), strength = Moderate, direction = Positive\<rparr>]"
proof -
  let ?B = exampleBuiltins
  let ?d = "[[(''a'', JNum (Fin 0)), (''b'', JNum (Fin 2)), (''c'', JNum (Fin 0))],
        [(''a'', JNum (Fin 2)), (''b'', JNum (Fin 3)), (''c'', JNum (Fin 0))],
        [(''a'', JNum (Fin 3)), (''b'', JNum (Fin 2)), (''c'', JNum (Fin 5))],
        [(''a'', JNum (Fin 4)), (''b'', JNum (Fin 4)), (''c'', JNum (Fin 5))],
        [(''a'', JNum (Fin 4)), (''b'', JNum (Fin 6)), (''c'', JNum (Fin 2))],
        [(''a'', JNull), (''b'', JNull), (''c'', JNum (Fin 7))]]"
  let ?e = "\<lparr>columns = [''a'', ''b''], correlation = Fin (7 / 10), strength = Moderate, direction = Positive\<rparr>"
  let ?P = "(map (\<lambda>r. (Number exampleBuiltins (cell r ''a''), Number exampleBuiltins (cell r ''b'')))
          (filter (\<lambda>r. cell r ''a'' \<noteq> JNull \<and> cell r ''a'' \<noteq> JUndefined \<and>
                        cell r ''b'' \<noteq> JNull \<and> cell r ''b'' \<noteq> JUndefined)
             [[(''a'', JNum (Fin 0)), (''b'', JNum (Fin 2)), (''c'', JNum (Fin 0))],
        [(''a'', JNum (Fin 2)), (''b'', JNum (Fin 3)), (''c'', JNum (Fin 0))],
        [(''a'', JNum (Fin 3)), (''b'', JNum (Fin 2)), (''c'', JNum (Fin 5))],
        [(''a'', JNum (Fin 4)), (''b'', JNum (Fin 4)), (''c'', JNum (Fin 5))],
        [(''a'', JNum (Fin 4)), (''b'', JNum (Fin 6)), (''c'', JNum (Fin 2))],
        [(''a'', JNull), (''b'', JNull), (''c'', JNum (Fin 7))]]))"
  have mem: "?e \<in> set (findCorrelations ?B ?d (detectColumnTypes ?B ?d))"
    by (simp add: null_row_correlations)
  note t = correlations_filtered_and_ranked [of ?B ?d "detectColumnTypes ?B ?d"]
  from t have all: "\<forall>e \<in> set (findCorrelations ?B ?d (detectColumnTypes ?B ?d)).
      \<exists>c1 \<in> set (detectColumnTypes ?B ?d). \<exists>c2 \<in> set (detectColumnTypes ?B ?d).
        type c1 = Numeric \<and> type c2 = Numeric
        \<and> (let P = map (\<lambda>r. (Number ?B (cell r (name c1)), Number ?B (cell r (name c2))))
                      (filter (\<lambda>r. cell r (name c1) \<noteq> JNull \<and> cell r (name c1) \<noteq> JUndefined \<and>
                                    cell r (name c2) \<noteq> JNull \<and> cell r (name c2) \<noteq> JUndefined)
                         ?d);
                r = jdiv (numerator P) (denominator P)
            in columns e = [name c1, name c2]
               \<and> 5 \<le> length P
               \<and> \<not> jeq (denominator P) (Fin 0)
               \<and> jgt (jabs r) (Fin 0.5)
               \<and> strength e = (if jgt (jabs r) (Fin 0.8) then Strong else Moderate)
               \<and> direction e = (if jgt r (Fin 0) then Positive else Negative)
               \<and> correlation e = toFixed2 r)"
    by (rule conjunct1)
  from bspec [OF all mem] obtain c1 c2 :: DataColumn
    where x: "let P = map (\<lambda>r. (Number ?B (cell r (name c1)), Number ?B (cell r (name c2))))
                      (filter (\<lambda>r. cell r (name c1) \<noteq> JNull \<and> cell r (name c1) \<noteq> JUndefined \<and>
                                    cell r (name c2) \<noteq> JNull \<and> cell r (name c2) \<noteq> JUndefined)
                         ?d);
                r = jdiv (numerator P) (denominator P)
            in columns ?e = [name c1, name c2]
               \<and> 5 \<le> length P
               \<and> \<not> jeq (denominator P) (Fin 0)
               \<and> jgt (jabs r) (Fin 0.5)
               \<and> strength ?e = (if jgt (jabs r) (Fin 0.8) then Strong else Moderate)
               \<and> direction ?e = (if jgt r (Fin 0) then Positive else Negative)
               \<and> correlation ?e = toFixed2 r"
    by (elim bexE conjE)
  from x have cols: "columns ?e = [name c1, name c2]"
    unfolding Let_def by (elim conjE)
  then have n: "name c1 = ''a''" "name c2 = ''b''" by simp_all
  from x have a: "5 \<le> length ?P"
    unfolding Let_def n by (elim conjE)
  from x have b: "jgt (jabs (jdiv (numerator ?P) (denominator ?P))) (Fin 0.5)"
    unfolding Let_def n by (elim conjE)
  from x have c: "correlation ?e = toFixed2 (jdiv (numerator ?P) (denominator ?P))"
    unfolding Let_def n by (elim conjE)
  have p: "?P = [(Fin 0, Fin 2), (Fin 2, Fin 3), (Fin 3, Fin 2), (Fin 4, Fin 4), (Fin 4, Fin 6)]"
    by (simp add: cell_def)
  from t have srt: "sorted_wrt (\<lambda>a b. \<not> jlt (jabs (correlation a)) (jabs (correlation b)))
        (findCorrelations ?B ?d (detectColumnTypes ?B ?d))" by (elim conjE)
  from t have "filter (\<lambda>e. jabs (correlation e) = Fin (7 / 10))
        (findCorrelations ?B ?d (detectColumnTypes ?B ?d))
     = filter (\<lambda>e. jabs (correlation e) = Fin (7 / 10))
              (List.map_filter (\<lambda>(c1, c2). correlatePair ?B ?d (name c1) (name c2))
                 (columnPairs (filter (\<lambda>c. type c = Numeric) (detectColumnTypes ?B ?d))))"
    by blast
  also have "\<dots> = [?e, \<lparr>columns = [''a'', ''c''], correlation = Fin (7 / 10), strength = Moderate, direction = Positive\<rparr>]"
    by (simp add: null_row_columns List.map_filter_simps detectColumn_name null_row_entries)
  finally have st: "filter (\<lambda>e. jabs (correlation e) = Fin (7 / 10))
        (findCorrelations ?B ?d (detectColumnTypes ?B ?d)) = [?e, \<lparr>columns = [''a'', ''c''], correlation = Fin (7 / 10), strength = Moderate, direction = Positive\<rparr>]" .
  show ?thesis
    by (intro conjI) (rule mem, rule p, rule a, rule b, rule c, rule srt, rule st)
qed

end
